theory Spec2Isabelle
  imports Complex_Main
begin

section \<open>JavaScript strings and errors\<close>

text \<open>
  Strings are lists of characters; \<open>length\<close> is the source's \<open>.length\<close>. An exception
  of the source is a value of \<open>js_error\<close>, carried on the left of a sum.
\<close>

datatype js_error =
    SyntaxError
  | KickCredentialsMissingError string
  | Error string

text \<open>\<open>String.prototype.split(sep)\<close> for a separator of one character: it always
  returns at least one piece, and \<open>"".split(",")\<close> is \<open>[""]\<close>.\<close>

fun split :: "char \<Rightarrow> string \<Rightarrow> string list" where
  "split sep [] = [[]]"
| "split sep (c # cs) =
     (if c = sep then [] # split sep cs
      else (case split sep cs of
              [] \<Rightarrow> [[c]]
            | w # ws \<Rightarrow> (c # w) # ws))"

text \<open>\<open>Array.prototype.join(sep)\<close>.\<close>

fun join :: "string \<Rightarrow> string list \<Rightarrow> string" where
  "join sep [] = []"
| "join sep [x] = x"
| "join sep (x # y # ys) = x @ sep @ join sep (y # ys)"

section \<open>textUtils.ts: wrapText\<close>

text \<open>The characters that the regular expression \<open>.\<close> does not match (line
  terminators): line feed and carriage return.\<close>

definition isLineTerminator :: "char \<Rightarrow> bool" where
  "isLineTerminator c = (c = CHR 0x0A \<or> c = CHR 0x0D)"

text \<open>
  \<open>line.match(new RegExp('.{1,' + maxLength + '}', 'g'))\<close> for \<open>maxLength \<ge> 1\<close>:
  scanning from the left, a line terminator is skipped, and otherwise the longest run of at
  most \<open>maxLength\<close> characters other than line terminators is one match. The list of
  matches is returned; the empty list stands for the source's \<open>null\<close>.
\<close>

function matchChunks :: "nat \<Rightarrow> string \<Rightarrow> string list" where
  "matchChunks n [] = []"
| "matchChunks n (c # cs) =
     (if n = 0 then []
      else if isLineTerminator c then matchChunks n cs
      else (let chunk = take n (takeWhile (\<lambda>d. \<not> isLineTerminator d) (c # cs))
            in chunk # matchChunks n (drop (length chunk) (c # cs))))"
  by pat_completeness auto
termination
  by (relation "measure (\<lambda>(n, s). length s)") (auto simp: Let_def)

text \<open>The greedy loop of \<open>wrapText\<close> over \<open>words[1..]\<close>, with the final
  \<open>lines.push(currentLine)\<close>.\<close>

fun wrapLoop :: "nat \<Rightarrow> string list \<Rightarrow> string \<Rightarrow> string list \<Rightarrow> string list" where
  "wrapLoop maxLength [] currentLine lines = lines @ [currentLine]"
| "wrapLoop maxLength (w # ws) currentLine lines =
     (if length currentLine + 1 + length w \<le> maxLength
      then wrapLoop maxLength ws (currentLine @ '' '' @ w) lines
      else wrapLoop maxLength ws w (lines @ [currentLine]))"

text \<open>
  The callback of \<open>lines.map\<close>: a line longer than \<open>maxLength\<close> is replaced by its
  matches joined by a line feed, or kept when there is no match (\<open>|| line\<close>). For
  \<open>maxLength = 0\<close> the pattern \<open>.{1,0}\<close> is rejected by the \<open>RegExp\<close> constructor.
\<close>

definition forceSplit :: "nat \<Rightarrow> string \<Rightarrow> js_error + string" where
  "forceSplit maxLength line =
     (if length line > maxLength then
        (if maxLength = 0 then Inl SyntaxError
         else (case matchChunks maxLength line of
                 [] \<Rightarrow> Inr line
               | m # ms \<Rightarrow> Inr (join [CHR 0x0A] (m # ms))))
      else Inr line)"

text \<open>\<open>map\<close> with a callback that may throw: the first exception ends it.\<close>

fun mapE :: "('a \<Rightarrow> js_error + 'b) \<Rightarrow> 'a list \<Rightarrow> js_error + 'b list" where
  "mapE f [] = Inr []"
| "mapE f (x # xs) =
     (case f x of
        Inl e \<Rightarrow> Inl e
      | Inr y \<Rightarrow> (case mapE f xs of Inl e \<Rightarrow> Inl e | Inr ys \<Rightarrow> Inr (y # ys)))"

definition wrapText :: "string \<Rightarrow> nat \<Rightarrow> js_error + string" where
  "wrapText text maxLength =
     (if length text \<le> maxLength then Inr text
      else (case split CHR '' '' text of
              [] \<Rightarrow> Inr []
            | w # ws \<Rightarrow>
                (case mapE (forceSplit maxLength) (wrapLoop maxLength ws w []) of
                   Inl e \<Rightarrow> Inl e
                 | Inr ls \<Rightarrow> Inr (join [CHR 0x0A] ls))))"

section \<open>imageUtils.ts: numbers and constants\<close>

text \<open>Decimal digits of a natural number, as a template literal prints it.\<close>

function natStr :: "nat \<Rightarrow> string" where
  "natStr n =
     (if n < 10 then [char_of (48 + n)]
      else natStr (n div 10) @ [char_of (48 + n mod 10)])"
  by pat_completeness auto
termination
  by (relation "measure (\<lambda>n. n)") auto

declare natStr.simps [simp del]

text \<open>
  A number in a template literal. The layout constants are non-negative and have at most
  one decimal digit (they are multiples of one half, exact as doubles), and for those the
  shortest decimal form that JavaScript prints is the integer part, followed by a point
  and the one digit when the number is not an integer.
\<close>

definition numStr :: "rat \<Rightarrow> string" where
  "numStr x =
     (let n = \<lfloor>x\<rfloor> in
      if x = of_int n then natStr (nat n)
      else natStr (nat n) @ ''.'' @ natStr (nat \<lfloor>(x - of_int n) * 10\<rfloor>))"

definition IMAGE_CACHE_MS :: int where
  "IMAGE_CACHE_MS = 10 * 60 * 1000"

definition MAX_CACHE_SIZE :: nat where
  "MAX_CACHE_SIZE = 50"

text \<open>The double nearest to the literal \<open>0.2\<close>, as an exact fraction:
  \<open>3602879701896397 / 2^54\<close>.\<close>

definition CACHE_EVICTION_PERCENTAGE :: rat where
  "CACHE_EVICTION_PERCENTAGE = 3602879701896397 / 18014398509481984"

text \<open>Rounding of an exact product in the interval from 8 to 16 to the nearest double:
  the doubles there are the multiples of \<open>2^-49\<close>.\<close>

definition roundDouble_8_16 :: "rat \<Rightarrow> rat" where
  "roundDouble_8_16 x = of_int (round (x * 2 ^ 49)) / 2 ^ 49"

text \<open>\<open>Math.ceil(MAX_CACHE_SIZE * CACHE_EVICTION_PERCENTAGE)\<close>.\<close>

definition toRemove :: nat where
  "toRemove = nat \<lceil>roundDouble_8_16 (of_nat MAX_CACHE_SIZE * CACHE_EVICTION_PERCENTAGE)\<rceil>"

definition VIEWBOX_SIZE :: rat where "VIEWBOX_SIZE = 100"
definition BORDER_RADIUS :: rat where "BORDER_RADIUS = 15"
definition INNER_RECT_SIZE :: rat where "INNER_RECT_SIZE = 98"
definition INNER_RECT_OFFSET :: rat where "INNER_RECT_OFFSET = 1"

definition PATH_MIN :: rat where "PATH_MIN = INNER_RECT_OFFSET"
definition PATH_MAX :: rat where "PATH_MAX = VIEWBOX_SIZE - INNER_RECT_OFFSET"
definition ARC_START :: rat where "ARC_START = INNER_RECT_OFFSET + BORDER_RADIUS"
definition ARC_END :: rat where "ARC_END = VIEWBOX_SIZE - (INNER_RECT_OFFSET + BORDER_RADIUS)"

definition CENTER_X :: rat where "CENTER_X = 50"
definition CENTER_Y :: rat where "CENTER_Y = 50"
definition CENTER_LINE_GAP :: rat where "CENTER_LINE_GAP = 1 / 2"
definition CENTER_X_LEFT :: rat where "CENTER_X_LEFT = CENTER_X - CENTER_LINE_GAP"
definition CENTER_X_RIGHT :: rat where "CENTER_X_RIGHT = CENTER_X + CENTER_LINE_GAP"
definition CENTER_Y_TOP :: rat where "CENTER_Y_TOP = CENTER_Y - CENTER_LINE_GAP"
definition CENTER_Y_BOTTOM :: rat where "CENTER_Y_BOTTOM = CENTER_Y + CENTER_LINE_GAP"
definition TOP_JUNCTION_Y :: rat where "TOP_JUNCTION_Y = 33 / 2"
definition SIDE_JUNCTION_Y :: rat where "SIDE_JUNCTION_Y = 35 / 2"

section \<open>imageUtils.ts: the image cache\<close>

record textOverlay =
  title :: string
  subtitle :: "string option"

record cacheEntry =
  val :: string
  expiresAt :: int
  lastUsed :: int

text \<open>The \<open>Map\<close> of the source keeps its entries in insertion order, with one entry
  per key: an association list. \<open>set\<close> on a key that is present replaces the entry in
  place, and appends otherwise.\<close>

type_synonym imageCache = "(string \<times> cacheEntry) list"

fun mapGet :: "('k \<times> 'v) list \<Rightarrow> 'k \<Rightarrow> 'v option" where
  "mapGet [] k = None"
| "mapGet ((k', v) # m) k = (if k' = k then Some v else mapGet m k)"

fun mapSet :: "'k \<Rightarrow> 'v \<Rightarrow> ('k \<times> 'v) list \<Rightarrow> ('k \<times> 'v) list" where
  "mapSet k v [] = [(k, v)]"
| "mapSet k v ((k', v') # m) = (if k' = k then (k, v) # m else (k', v') # mapSet k v m)"

fun mapDelete :: "'k \<Rightarrow> ('k \<times> 'v) list \<Rightarrow> ('k \<times> 'v) list" where
  "mapDelete k [] = []"
| "mapDelete k ((k', v') # m) = (if k' = k then m else (k', v') # mapDelete k m)"

text \<open>
  What the program obtains from the platform: \<open>JSON.stringify\<close> of an overlay that is
  present, the base64 text of the UTF-8 bytes of a string (\<open>Buffer\<close>), and the text
  elements of \<open>renderTextOverlay\<close> for an overlay that is present, whose coordinates are
  floating-point products.
\<close>

record platform =
  jsonStringify :: "textOverlay \<Rightarrow> string"
  toBase64 :: "string \<Rightarrow> string"
  textBody :: "textOverlay \<Rightarrow> string"

definition renderTextOverlay :: "platform \<Rightarrow> textOverlay option \<Rightarrow> string" where
  "renderTextOverlay pf textOverlay =
     (case textOverlay of None \<Rightarrow> [] | Some ov \<Rightarrow> textBody pf ov)"

definition boolStr :: "bool \<Rightarrow> string" where
  "boolStr b = (if b then ''true'' else ''false'')"

text \<open>\<open>`${colorDataUri}-${isLive}-${JSON.stringify(textOverlay)}`\<close>; \<open>JSON.stringify\<close> of
  \<open>undefined\<close> is \<open>undefined\<close>, printed as such.\<close>

definition fullCacheKey :: "platform \<Rightarrow> string \<Rightarrow> bool \<Rightarrow> textOverlay option \<Rightarrow> string" where
  "fullCacheKey pf colorDataUri isLive textOverlay =
     colorDataUri @ ''-'' @ boolStr isLive @ ''-'' @
     (case textOverlay of None \<Rightarrow> ''undefined'' | Some ov \<Rightarrow> jsonStringify pf ov)"

text \<open>The pruning of a full cache: the entries are sorted by \<open>lastUsed\<close> (the sort is
  stable) and the keys of the first \<open>toRemove\<close> of them are deleted.\<close>

definition pruneCache :: "imageCache \<Rightarrow> imageCache" where
  "pruneCache imageCache =
     (if length imageCache \<ge> MAX_CACHE_SIZE then
        (let sortedEntries = sort_key (\<lambda>a. lastUsed (snd a)) imageCache
         in fold (\<lambda>i c. if i < length sortedEntries
                         then mapDelete (fst (sortedEntries ! i)) c else c)
              [0..<toRemove] imageCache)
      else imageCache)"

definition grayscaleAttr :: "bool \<Rightarrow> string" where
  \<open>grayscaleAttr isLive = (if \<not> isLive then ''filter="url(#grayscale)"'' else [])\<close>

definition feColorMatrixLine :: string where
  \<open>feColorMatrixLine = ''      <feColorMatrix type="matrix" values="0.2126 0.7152 0.0722 0 0 0.2126 0.7152 0.0722 0 0 0.2126 0.7152 0.0722 0 0 0 0 0 1 0" />''\<close>

definition xmlHeader :: string where
  \<open>xmlHeader = ''<?xml version="1.0" encoding="UTF-8"?>''\<close>

definition processedSvg :: "string \<Rightarrow> bool \<Rightarrow> string \<Rightarrow> string" where
  \<open>processedSvg colorDataUri isLive textElements =
     (let borderColor = (if isLive then ''#53fc18'' else ''#ff0000'') in
      join [CHR 0x0A]
       [xmlHeader,
        ''<svg xmlns="http://www.w3.org/2000/svg" viewBox="0 0 '' @ numStr VIEWBOX_SIZE @ '' '' @ numStr VIEWBOX_SIZE @ ''">'',
        ''  <defs>'',
        ''    <filter id="grayscale">'',
        feColorMatrixLine,
        ''    </filter>'',
        ''    <filter id="textShadow" x="-20%" y="-20%" width="140%" height="140%">'',
        ''      <feDropShadow dx="0" dy="1" stdDeviation="1" flood-color="black" flood-opacity="0.8"/>'',
        ''    </filter>'',
        ''    <clipPath id="clip">'',
        ''      <rect x="'' @ numStr INNER_RECT_OFFSET @ ''" y="'' @ numStr INNER_RECT_OFFSET
          @ ''" width="'' @ numStr INNER_RECT_SIZE @ ''" height="'' @ numStr INNER_RECT_SIZE
          @ ''" rx="'' @ numStr BORDER_RADIUS @ ''" ry="'' @ numStr BORDER_RADIUS @ ''" />'',
        ''    </clipPath>'',
        ''  </defs>'',
        ''  <rect width="'' @ numStr VIEWBOX_SIZE @ ''" height="'' @ numStr VIEWBOX_SIZE @ ''" fill="#000" />'',
        ''  <image href="'' @ colorDataUri @ ''" x="0" y="0" width="'' @ numStr VIEWBOX_SIZE
          @ ''" height="'' @ numStr VIEWBOX_SIZE
          @ ''" preserveAspectRatio="xMidYMid slice" clip-path="url(#clip)" ''
          @ grayscaleAttr isLive @ '' />'',
        ''  <rect x="'' @ numStr INNER_RECT_OFFSET @ ''" y="'' @ numStr INNER_RECT_OFFSET
          @ ''" width="'' @ numStr INNER_RECT_SIZE @ ''" height="'' @ numStr INNER_RECT_SIZE
          @ ''" rx="'' @ numStr BORDER_RADIUS @ ''" ry="'' @ numStr BORDER_RADIUS
          @ ''" fill="none" stroke="'' @ borderColor @ ''" stroke-width="2" />'',
        ''  '' @ textElements,
        ''</svg>''])\<close>

definition dataUri :: "platform \<Rightarrow> string \<Rightarrow> string" where
  "dataUri pf svg = ''data:image/svg+xml;base64,'' @ toBase64 pf svg"

text \<open>\<open>getProcessedImage\<close>, with the cache passed in and returned and \<open>now\<close> the
  value of \<open>Date.now()\<close>.\<close>

definition getProcessedImage ::
  "platform \<Rightarrow> int \<Rightarrow> string \<Rightarrow> bool \<Rightarrow> textOverlay option \<Rightarrow> imageCache \<Rightarrow> string \<times> imageCache" where
  "getProcessedImage pf now colorDataUri isLive textOverlay imageCache =
     (let key = fullCacheKey pf colorDataUri isLive textOverlay;
          cached = mapGet imageCache key;
          hit = (case cached of None \<Rightarrow> False | Some c \<Rightarrow> expiresAt c > now)
      in if hit then
           (case cached of
              Some c \<Rightarrow> (val c, mapSet key (c\<lparr>lastUsed := now\<rparr>) imageCache)
            | None \<Rightarrow> ([], imageCache))
         else
           (let pruned = pruneCache imageCache;
                uri = dataUri pf (processedSvg colorDataUri isLive (renderTextOverlay pf textOverlay))
            in (uri, mapSet key \<lparr>val = uri, expiresAt = now + IMAGE_CACHE_MS, lastUsed = now\<rparr> pruned)))"

section \<open>imageUtils.ts: the collage\<close>

text \<open>An item of a collage; \<open>live\<close> is the source's \<open>isLive\<close>, and \<open>isFlashing\<close> is
  optional there.\<close>

record collageItem =
  image :: string
  live :: bool
  isFlashing :: "bool option"

record geometry =
  tag :: string
  attrs :: string

text \<open>\<open>xs.map((x, i) => f(x, i))\<close>.\<close>

definition mapIndexed :: "('a \<Rightarrow> nat \<Rightarrow> 'b) \<Rightarrow> 'a list \<Rightarrow> 'b list" where
  "mapIndexed f xs = map (\<lambda>i. f (xs ! i) i) [0..<length xs]"

definition patternOf :: "collageItem \<Rightarrow> nat \<Rightarrow> string" where
  \<open>patternOf item index =
     join [CHR 0x0A]
      [[],
       ''    <pattern id="pat'' @ natStr index @ ''" patternUnits="userSpaceOnUse" width="100" height="100">'',
       ''        <image href="'' @ image item
         @ ''" x="0" y="0" width="100" height="100" preserveAspectRatio="xMidYMid slice" ''
         @ grayscaleAttr (live item) @ '' />'',
       ''    </pattern>'']\<close>

definition collagePatterns :: "collageItem list \<Rightarrow> string list" where
  "collagePatterns items = mapIndexed patternOf items"

definition collageGeometries :: "nat \<Rightarrow> geometry list" where
  \<open>collageGeometries count =
     (if count = 2 then
        [\<lparr>tag = ''rect'', attrs = ''x="0" y="0" width="50" height="100"''\<rparr>,
         \<lparr>tag = ''rect'', attrs = ''x="50" y="0" width="50" height="100"''\<rparr>]
      else if count = 3 then
        [\<lparr>tag = ''polygon'', attrs = ''points="50,50 0,17 0,0 100,0 100,17"''\<rparr>,
         \<lparr>tag = ''polygon'', attrs = ''points="50,50 100,17 100,100 50,100"''\<rparr>,
         \<lparr>tag = ''polygon'', attrs = ''points="50,50 50,100 0,100 0,17"''\<rparr>]
      else
        [\<lparr>tag = ''rect'', attrs = ''x="0" y="0" width="50" height="50"''\<rparr>,
         \<lparr>tag = ''rect'', attrs = ''x="50" y="0" width="50" height="50"''\<rparr>,
         \<lparr>tag = ''rect'', attrs = ''x="0" y="50" width="50" height="50"''\<rparr>,
         \<lparr>tag = ''rect'', attrs = ''x="50" y="50" width="50" height="50"''\<rparr>])\<close>

definition collageSeparators :: "nat \<Rightarrow> string" where
  \<open>collageSeparators count =
     (if count = 2 then
        ''<line x1="50" y1="0" x2="50" y2="100" stroke="black" stroke-width="2" />''
      else if count = 3 then
        join [CHR 0x0A]
         [[],
          ''            <line x1="50" y1="50" x2="0" y2="17" stroke="black" stroke-width="2" />'',
          ''            <line x1="50" y1="50" x2="100" y2="17" stroke="black" stroke-width="2" />'',
          ''            <line x1="50" y1="50" x2="50" y2="100" stroke="black" stroke-width="2" />'',
          ''        '']
      else
        join [CHR 0x0A]
         [[],
          ''            <line x1="50" y1="0" x2="50" y2="100" stroke="black" stroke-width="2" />'',
          ''            <line x1="0" y1="50" x2="100" y2="50" stroke="black" stroke-width="2" />'',
          ''        ''])\<close>

definition clipDefOf :: "geometry \<Rightarrow> nat \<Rightarrow> string" where
  \<open>clipDefOf geo i =
     ''<clipPath id="clip'' @ natStr i @ ''"><'' @ tag geo @ '' '' @ attrs geo @ '' /></clipPath>''\<close>

definition collageClipDefs :: "nat \<Rightarrow> string list" where
  "collageClipDefs count = mapIndexed clipDefOf (collageGeometries count)"

text \<open>\<open>items[i] && items[i].isFlashing\<close>: an index out of range reads \<open>undefined\<close>.\<close>

definition flashingAt :: "collageItem list \<Rightarrow> nat \<Rightarrow> bool" where
  "flashingAt items i = (i < length items \<and> isFlashing (items ! i) = Some True)"

definition imageShapeOf :: "collageItem list \<Rightarrow> geometry \<Rightarrow> nat \<Rightarrow> string" where
  \<open>imageShapeOf items geo i =
     (let fill = (if flashingAt items i then ''#53fc18'' else ''url(#pat'' @ natStr i @ '')'')
      in ''<'' @ tag geo @ '' '' @ attrs geo @ '' fill="'' @ fill @ ''" />'')\<close>

definition collageImageShapes :: "collageItem list \<Rightarrow> string list" where
  "collageImageShapes items = mapIndexed (imageShapeOf items) (collageGeometries (length items))"

text \<open>A point \<open>x,y\<close> of a path.\<close>

definition pt :: "rat \<Rightarrow> rat \<Rightarrow> string" where
  "pt x y = numStr x @ '','' @ numStr y"

text \<open>An arc of the border radius to a point, with the sweep flag given.\<close>

definition arc :: "string \<Rightarrow> rat \<Rightarrow> rat \<Rightarrow> string" where
  "arc sweep x y =
     ''A '' @ pt BORDER_RADIUS BORDER_RADIUS @ '' 0 0 '' @ sweep @ '' '' @ pt x y"

definition collageBorderPaths :: "nat \<Rightarrow> string list" where
  "collageBorderPaths count =
     (if count = 2 then
        [''M '' @ pt CENTER_X_LEFT PATH_MIN @ '' L '' @ pt ARC_START PATH_MIN @ '' ''
           @ arc ''0'' PATH_MIN ARC_START @ '' L '' @ pt PATH_MIN ARC_END @ '' ''
           @ arc ''0'' ARC_START PATH_MAX @ '' L '' @ pt CENTER_X_LEFT PATH_MAX,
         ''M '' @ pt CENTER_X_RIGHT PATH_MIN @ '' L '' @ pt ARC_END PATH_MIN @ '' ''
           @ arc ''1'' PATH_MAX ARC_START @ '' L '' @ pt PATH_MAX ARC_END @ '' ''
           @ arc ''1'' ARC_END PATH_MAX @ '' L '' @ pt CENTER_X_RIGHT PATH_MAX]
      else if count = 3 then
        [''M '' @ pt PATH_MIN TOP_JUNCTION_Y @ '' '' @ arc ''1'' ARC_START PATH_MIN
           @ '' L '' @ pt ARC_END PATH_MIN @ '' '' @ arc ''1'' PATH_MAX TOP_JUNCTION_Y,
         ''M '' @ pt PATH_MAX SIDE_JUNCTION_Y @ '' L '' @ pt PATH_MAX ARC_END @ '' ''
           @ arc ''1'' ARC_END PATH_MAX @ '' L '' @ pt CENTER_X_RIGHT PATH_MAX,
         ''M '' @ pt CENTER_X_LEFT PATH_MAX @ '' L '' @ pt ARC_START PATH_MAX @ '' ''
           @ arc ''1'' PATH_MIN ARC_END @ '' L '' @ pt PATH_MIN SIDE_JUNCTION_Y]
      else
        [''M '' @ pt CENTER_X_LEFT PATH_MIN @ '' L '' @ pt ARC_START PATH_MIN @ '' ''
           @ arc ''0'' PATH_MIN ARC_START @ '' L '' @ pt PATH_MIN CENTER_Y_TOP,
         ''M '' @ pt CENTER_X_RIGHT PATH_MIN @ '' L '' @ pt ARC_END PATH_MIN @ '' ''
           @ arc ''1'' PATH_MAX ARC_START @ '' L '' @ pt PATH_MAX CENTER_Y_TOP,
         ''M '' @ pt PATH_MIN CENTER_Y_BOTTOM @ '' L '' @ pt PATH_MIN ARC_END @ '' ''
           @ arc ''0'' ARC_START PATH_MAX @ '' L '' @ pt CENTER_X_LEFT PATH_MAX,
         ''M '' @ pt PATH_MAX CENTER_Y_BOTTOM @ '' L '' @ pt PATH_MAX ARC_END @ '' ''
           @ arc ''1'' ARC_END PATH_MAX @ '' L '' @ pt CENTER_X_RIGHT PATH_MAX])"

text \<open>The callback of \<open>items.slice(0, 4).map\<close>: the empty string where there is no border
  path at the index.\<close>

definition borderOf :: "string list \<Rightarrow> collageItem \<Rightarrow> nat \<Rightarrow> string" where
  \<open>borderOf borderPaths item i =
     (if \<not> (i < length borderPaths \<and> borderPaths ! i \<noteq> []) then []
      else (let color = (if live item then ''#53fc18'' else ''#ff0000'')
            in ''<path d="'' @ borderPaths ! i @ ''" fill="none" stroke="'' @ color
               @ ''" stroke-width="2" />''))\<close>

definition collageBorders :: "collageItem list \<Rightarrow> string list" where
  "collageBorders items =
     mapIndexed (borderOf (collageBorderPaths (length items))) (take 4 items)"

text \<open>The SVG text of a collage of two or more items.\<close>

definition collageSvg :: "collageItem list \<Rightarrow> string \<Rightarrow> string" where
  \<open>collageSvg items textElements =
     join [CHR 0x0A]
      [xmlHeader,
       ''<svg xmlns="http://www.w3.org/2000/svg" viewBox="0 0 100 100">'',
       ''  <defs>'',
       ''    <filter id="grayscale">'',
       feColorMatrixLine,
       ''    </filter>'',
       ''    <clipPath id="mainClip">'',
       ''      <rect x="1" y="1" width="98" height="98" rx="15" ry="15" />'',
       ''    </clipPath>'',
       ''    '' @ join [CHR 0x0A] (collagePatterns items),
       ''    '' @ join [CHR 0x0A] (collageClipDefs (length items)),
       ''  </defs>'',
       ''  '',
       ''  <rect width="100" height="100" fill="#000" />'',
       ''  '',
       ''  <g clip-path="url(#mainClip)">'',
       ''    '' @ join [CHR 0x0A] (collageImageShapes items),
       ''    '' @ collageSeparators (length items),
       ''  </g>'',
       ''  '',
       ''  '' @ join [CHR 0x0A] (collageBorders items),
       ''  '' @ textElements,
       ''</svg>'']\<close>

definition flashSvg :: string where
  \<open>flashSvg =
     join [CHR 0x0A]
      [xmlHeader,
       ''<svg xmlns="http://www.w3.org/2000/svg" viewBox="0 0 100 100">'',
       ''  <rect width="100" height="100" fill="#53fc18" rx="15" ry="15" />'',
       ''</svg>'']\<close>

definition generateCollageSvg ::
  "platform \<Rightarrow> int \<Rightarrow> collageItem list \<Rightarrow> textOverlay option \<Rightarrow> imageCache \<Rightarrow> string \<times> imageCache" where
  "generateCollageSvg pf now items textOverlay imageCache =
     (case items of
        [] \<Rightarrow> ([], imageCache)
      | [item] \<Rightarrow>
          (if isFlashing item = Some True then (dataUri pf flashSvg, imageCache)
           else getProcessedImage pf now (image item) (live item) textOverlay imageCache)
      | _ \<Rightarrow> (dataUri pf (collageSvg items (renderTextOverlay pf textOverlay)), imageCache))"

section \<open>kickStatus.ts: the status of one channel\<close>

text \<open>The values of \<open>StatusResult.status\<close>, and those of \<open>ActionState.lastStatus\<close>,
  which has \<open>"unknown"\<close> in addition.\<close>

datatype result_status = S_live | S_offline | S_error | S_not_found

datatype last_status = Known result_status | Unknown

fun statusName :: "result_status \<Rightarrow> string" where
  "statusName S_live = ''live''"
| "statusName S_offline = ''offline''"
| "statusName S_error = ''error''"
| "statusName S_not_found = ''not_found''"

text \<open>\<open>title\<close> of the source is \<open>streamTitle\<close> here (the overlay has a \<open>title\<close>).\<close>

record StatusResult =
  isLive :: bool
  status :: result_status
  displayName :: "string option"
  thumbnailUrl :: "string option"
  base64Image :: "string option"
  rawBase64Image :: "string option"
  viewerCount :: "int option"
  streamTitle :: "string option"
  category :: "string option"

text \<open>\<open>KickChannelStatus\<close> of kickOfficialApi.ts; its fields \<open>isLive\<close>, \<open>displayName\<close>,
  \<open>viewerCount\<close> and \<open>category\<close> carry the prefix \<open>ch\<close> here.\<close>

record KickChannelStatus =
  chIsLive :: bool
  chDisplayName :: string
  profileImageUrl :: "string option"
  liveStatusText :: "string option"
  chViewerCount :: "int option"
  chCategory :: "string option"

text \<open>Truthiness of an optional string: \<open>undefined\<close> and the empty string are falsy.\<close>

definition truthy :: "string option \<Rightarrow> bool" where
  "truthy v = (case v of None \<Rightarrow> False | Some s \<Rightarrow> s \<noteq> [])"

text \<open>\<open>v || d\<close> for an optional string \<open>v\<close> and a string \<open>d\<close>.\<close>

definition orElse :: "string option \<Rightarrow> string \<Rightarrow> string" where
  "orElse v d = (case v of None \<Rightarrow> d | Some s \<Rightarrow> if s = [] then d else s)"

text \<open>White space of \<open>String.prototype.trim\<close> among the characters of one byte: tab, line
  feed, vertical tab, form feed, carriage return, space and no-break space.\<close>

definition isWhiteSpace :: "char \<Rightarrow> bool" where
  "isWhiteSpace c = (c \<in> set [CHR 0x09, CHR 0x0A, CHR 0x0B, CHR 0x0C, CHR 0x0D, CHR 0x20, CHR 0xA0])"

definition trim :: "string \<Rightarrow> string" where
  "trim s = rev (dropWhile isWhiteSpace (rev (dropWhile isWhiteSpace s)))"

text \<open>
  What one call of \<open>checkStreamerStatus\<close> obtains from outside the program:
  \<open>fetchChannelStatus\<close> (an exception, \<open>undefined\<close> or a channel status), and the data URI
  read from the local copy of the profile image of a slug and URL
  (\<open>getLocalProfileImage\<close> and \<open>fs.readFile\<close>), if there is one.
\<close>

record fetchEnv =
  fetchChannelStatus :: "string \<Rightarrow> js_error + KickChannelStatus option"
  loadRawImage :: "string \<Rightarrow> string \<Rightarrow> string option"

definition buildStatusResult ::
  "platform \<Rightarrow> fetchEnv \<Rightarrow> int \<Rightarrow> string \<Rightarrow> KickChannelStatus \<Rightarrow> imageCache \<Rightarrow> StatusResult \<times> imageCache" where
  "buildStatusResult pf env now slug channelStatus imageCache =
     (let raw = (case profileImageUrl channelStatus of
                   None \<Rightarrow> None
                 | Some url \<Rightarrow> if url = [] then None else loadRawImage env slug url);
          (displayImage, cache') =
             (case raw of
                None \<Rightarrow> (None, imageCache)
              | Some r \<Rightarrow>
                  if r = [] then (None, imageCache)
                  else (let (img, c) = getProcessedImage pf now r (chIsLive channelStatus) None imageCache
                        in (Some img, c)))
      in (\<lparr>isLive = chIsLive channelStatus,
           status = (if chIsLive channelStatus then S_live else S_offline),
           displayName = Some (chDisplayName channelStatus),
           thumbnailUrl = (case displayImage of None \<Rightarrow> profileImageUrl channelStatus | Some i \<Rightarrow> Some i),
           base64Image = displayImage,
           rawBase64Image = raw,
           viewerCount = chViewerCount channelStatus,
           streamTitle = liveStatusText channelStatus,
           category = chCategory channelStatus\<rparr>, cache'))"

definition plainResult :: "result_status \<Rightarrow> string option \<Rightarrow> StatusResult" where
  "plainResult st name =
     \<lparr>isLive = False, status = st, displayName = name, thumbnailUrl = None,
      base64Image = None, rawBase64Image = None, viewerCount = None, streamTitle = None,
      category = None\<rparr>"

definition checkStreamerStatus ::
  "platform \<Rightarrow> fetchEnv \<Rightarrow> int \<Rightarrow> string \<Rightarrow> imageCache \<Rightarrow> StatusResult \<times> imageCache" where
  "checkStreamerStatus pf env now username imageCache =
     (let channel = trim username in
      if channel = [] then (plainResult S_error None, imageCache)
      else (case fetchChannelStatus env channel of
              Inl e \<Rightarrow> (plainResult S_error (Some channel), imageCache)
            | Inr None \<Rightarrow> (plainResult S_not_found (Some channel), imageCache)
            | Inr (Some channelStatus) \<Rightarrow>
                buildStatusResult pf env now channel channelStatus imageCache))"

section \<open>live-status-action.ts: the state of a button\<close>

text \<open>A timer handle of \<open>setInterval\<close>, with its period in milliseconds.\<close>

datatype timer = Interval nat

record ActionState =
  channels :: "string list"
  pollTimer :: "timer option"
  lastStatus :: last_status
  alertEndTime :: int
  keyDownTime :: int
  alertTimer :: "timer option"
  lastResult :: "StatusResult option"
  alertToggleState :: bool
  multiResults :: "StatusResult list option"
  alertingChannels :: "string set"

text \<open>The state that \<open>getState\<close> creates for a new context.\<close>

definition initialState :: ActionState where
  "initialState =
     \<lparr>channels = [], pollTimer = None, lastStatus = Unknown, alertEndTime = 0,
      keyDownTime = 0, alertTimer = None, lastResult = None, alertToggleState = False,
      multiResults = None, alertingChannels = {}\<rparr>"

text \<open>The calls on the host's action object, in the order they are made.\<close>

datatype effect = SetTitle string | SetImage string

definition redPng :: string where "redPng = ''imgs/actions/red.png''"
definition greenPng :: string where "greenPng = ''imgs/actions/green.png''"

definition placeholder :: string where
  "placeholder = ''data:image/png;base64,iVBORw0KGgoAAAANSUhEUgAAAAEAAAABCAQAAAC1HAwCAAAAC0lEQVR42mNkYAAAAAYAAjCB0C8AAAAASUVORK5CYII=''"

definition clearTimers :: "ActionState \<Rightarrow> ActionState" where
  "clearTimers state = state\<lparr>pollTimer := None, alertTimer := None\<rparr>"

definition startPolling :: "ActionState \<Rightarrow> ActionState" where
  "startPolling state = state\<lparr>pollTimer := Some (Interval 60000)\<rparr>"

definition startAlert :: "int \<Rightarrow> ActionState \<Rightarrow> ActionState" where
  "startAlert now state =
     state\<lparr>alertEndTime := now + 60000, alertToggleState := True,
           alertTimer := Some (Interval 1000)\<rparr>"

text \<open>\<open>String.prototype.toUpperCase\<close> on the letters a to z.\<close>

definition upperChar :: "char \<Rightarrow> char" where
  "upperChar c =
     (case map_of (zip ''abcdefghijklmnopqrstuvwxyz'' ''ABCDEFGHIJKLMNOPQRSTUVWXYZ'') c of
        None \<Rightarrow> c
      | Some u \<Rightarrow> u)"

definition toUpperCase :: "string \<Rightarrow> string" where
  "toUpperCase s = map upperChar s"

text \<open>\<open>liveResults.map(r => r.displayName).join("\n")\<close>, or the empty string when no
  result is live; \<open>join\<close> prints \<open>undefined\<close> as the empty string.\<close>

definition liveNames :: "StatusResult list \<Rightarrow> string" where
  "liveNames results =
     (let liveResults = filter isLive results
      in if length liveResults > 0
         then join [CHR 0x0A] (map (\<lambda>r. case displayName r of None \<Rightarrow> [] | Some n \<Rightarrow> n) liveResults)
         else [])"

section \<open>live-status-action.ts: render\<close>

text \<open>The image outside a flash: the image source, or, when there is none
  (\<open>!imageSource\<close>), the static green indicator for a live result and the red one
  otherwise.\<close>

definition fallbackImage :: "StatusResult \<Rightarrow> string option \<Rightarrow> string" where
  "fallbackImage result imageSource =
     (case imageSource of
        None \<Rightarrow> (if isLive result then greenPng else redPng)
      | Some img \<Rightarrow> if img = [] then (if isLive result then greenPng else redPng) else img)"

text \<open>The end of \<open>render\<close>, from \<open>setTitle(title)\<close> on, with the title and the image
  source computed so far.\<close>

definition renderFinish ::
  "platform \<Rightarrow> int \<Rightarrow> StatusResult \<Rightarrow> bool \<Rightarrow> ActionState \<Rightarrow> string \<Rightarrow> string option \<Rightarrow> imageCache
     \<Rightarrow> effect list \<times> imageCache" where
  "renderFinish pf now result isAlerting state titleText imageSource imageCache =
     (if isAlerting \<and> alertToggleState state then
        (case multiResults state of
           Some results \<Rightarrow>
             if length (channels state) > 1 then
               (let collageItems =
                      map (\<lambda>r. \<lparr>image = orElse (rawBase64Image r) placeholder,
                                 live = isLive r,
                                 isFlashing =
                                   Some (case displayName r of
                                           None \<Rightarrow> False
                                         | Some n \<Rightarrow> n \<noteq> [] \<and> n \<in> alertingChannels state)\<rparr>)
                        results;
                    (img, cache') =
                      generateCollageSvg pf now collageItems
                        (Some \<lparr>title = liveNames results, subtitle = None\<rparr>) imageCache
                in ([SetTitle titleText, SetImage img], cache'))
             else ([SetTitle titleText, SetImage greenPng], imageCache)
         | None \<Rightarrow> ([SetTitle titleText, SetImage greenPng], imageCache))
      else ([SetTitle titleText, SetImage (fallbackImage result imageSource)], imageCache))"

definition render ::
  "platform \<Rightarrow> int \<Rightarrow> StatusResult \<Rightarrow> bool \<Rightarrow> ActionState \<Rightarrow> imageCache
     \<Rightarrow> js_error + (effect list \<times> imageCache)" where
  "render pf now result isAlerting state imageCache =
     (if length (channels state) > 1 then
        Inr (renderFinish pf now result isAlerting state [] (base64Image result) imageCache)
      else
        (let name = (case displayName result of
                       Some n \<Rightarrow> n
                     | None \<Rightarrow> (case channels state of [] \<Rightarrow> ''Unknown'' | c # _ \<Rightarrow> c))
         in if status result = S_error \<or> \<not> truthy (displayName result) then
              Inr ([SetTitle ((case channels state of
                                 [] \<Rightarrow> ''Unknown''
                               | c # _ \<Rightarrow> if c = [] then ''Unknown'' else c)
                              @ [CHR 0x0A] @ ''Not Found''),
                    SetImage redPng], imageCache)
            else if status result \<noteq> S_live then
              (let statusText = (if status result = S_not_found then ''NOT FOUND''
                                 else toUpperCase (statusName (status result)))
               in Inr (renderFinish pf now result isAlerting state
                         (name @ [CHR 0x0A] @ statusText) (base64Image result) imageCache))
            else
              (case rawBase64Image result of
                 None \<Rightarrow>
                   Inr (renderFinish pf now result isAlerting state [] (base64Image result) imageCache)
               | Some raw \<Rightarrow>
                   if raw = [] then
                     Inr (renderFinish pf now result isAlerting state [] (base64Image result) imageCache)
                   else
                     (case wrapText (orElse (category result) ''Live'') 15 of
                        Inl e \<Rightarrow> Inl e
                      | Inr wrapped \<Rightarrow>
                          (let (img, cache') =
                                 getProcessedImage pf now raw True
                                   (Some \<lparr>title = name, subtitle = Some wrapped\<rparr>) imageCache
                           in Inr (renderFinish pf now result isAlerting state [] (Some img) cache'))))))"

section \<open>live-status-action.ts: refresh\<close>

text \<open>
  The awaited \<open>checkStreamerStatus(channel)\<close> as \<open>refresh\<close> sees it: a rejection or a
  result, and the image cache as the call leaves it.
\<close>

type_synonym fetchFn = "string \<Rightarrow> imageCache \<Rightarrow> (js_error + StatusResult) \<times> imageCache"

text \<open>\<open>Promise.all(state.channels.map(...))\<close>: a rejected fetch becomes an \<open>error\<close>
  result for that channel. The fetches are taken in the order of the list.\<close>

fun fetchAll :: "fetchFn \<Rightarrow> string list \<Rightarrow> imageCache \<Rightarrow> StatusResult list \<times> imageCache" where
  "fetchAll f [] imageCache = ([], imageCache)"
| "fetchAll f (channel # rest) imageCache =
     (let (r, cache1) = f channel imageCache;
          res = (case r of Inl e \<Rightarrow> plainResult S_error (Some channel) | Inr x \<Rightarrow> x);
          (rs, cache2) = fetchAll f rest cache1
      in (res # rs, cache2))"

text \<open>What the first part of the \<open>try\<close> block yields: the early return when every
  channel is invalid, or the result together with the new \<open>multiResults\<close>.\<close>

datatype fetched = AllInvalid | Fetched StatusResult "StatusResult list"

definition firstCategory :: "StatusResult list \<Rightarrow> string option" where
  "firstCategory validResults =
     (let c = (case find isLive validResults of None \<Rightarrow> None | Some r \<Rightarrow> category r)
      in if truthy c then c
         else (case validResults of [] \<Rightarrow> None | r # _ \<Rightarrow> category r))"

definition fetchMulti ::
  "platform \<Rightarrow> fetchFn \<Rightarrow> int \<Rightarrow> string list \<Rightarrow> imageCache \<Rightarrow> fetched \<times> imageCache" where
  "fetchMulti pf f now chans imageCache =
     (let (allResults, cache1) = fetchAll f chans imageCache;
          validResults = filter (\<lambda>r. status r \<noteq> S_not_found) allResults
      in if length validResults = 0 \<and> length allResults > 0 then (AllInvalid, cache1)
         else
           (let anyLive = list_ex isLive validResults;
                collageItems =
                  map (\<lambda>r. \<lparr>image = orElse (rawBase64Image r) placeholder, live = isLive r,
                             isFlashing = None\<rparr>) validResults;
                names0 = liveNames validResults;
                names = (case validResults of
                           [r] \<Rightarrow> if names0 = [] then orElse (displayName r) [] else names0
                         | _ \<Rightarrow> names0);
                (collage, cache2) =
                  generateCollageSvg pf now collageItems
                    (Some \<lparr>title = names, subtitle = None\<rparr>) cache1
            in (Fetched
                  \<lparr>isLive = anyLive,
                   status = (if anyLive then S_live else S_offline),
                   displayName = Some names,
                   thumbnailUrl = None,
                   base64Image = Some collage,
                   rawBase64Image = None,
                   viewerCount =
                     Some (sum_list (map (\<lambda>r. case viewerCount r of None \<Rightarrow> 0 | Some v \<Rightarrow> v)
                                      validResults)),
                   streamTitle = None,
                   category = firstCategory validResults\<rparr>
                  validResults, cache2)))"

text \<open>
  The body of \<open>state.multiResults.forEach\<close>: the identifiers added to
  \<open>newAlertingChannels\<close>, in the order of the new results. With aligned indices the old
  result and the identifier are read at the index of the new result; otherwise the old
  result is the first one with the same display name, and the display name is the identifier.
\<close>

definition detectTransitions ::
  "StatusResult list \<Rightarrow> StatusResult list \<Rightarrow> string list \<Rightarrow> string list" where
  "detectTransitions oldMultiResults newResults chans =
     (let indicesAligned =
            (length oldMultiResults = length newResults \<and> length chans = length newResults)
      in concat
           (mapIndexed
              (\<lambda>newR index.
                 (let oldR = (if indicesAligned
                              then (if index < length oldMultiResults
                                    then Some (oldMultiResults ! index) else None)
                              else find (\<lambda>prev. displayName prev = displayName newR) oldMultiResults);
                      stableIdentifier =
                             (if indicesAligned
                              then (if index < length chans then Some (chans ! index) else None)
                              else displayName newR)
                  in (case oldR of
                        None \<Rightarrow> []
                      | Some prev \<Rightarrow>
                          if \<not> isLive prev \<and> isLive newR \<and> truthy stableIdentifier
                          then [orElse stableIdentifier []] else [])))
              newResults))"

definition errorEffects :: "effect list" where
  "errorEffects = [SetImage redPng, SetTitle ''ERROR'']"

text \<open>
  The part of \<open>refresh\<close> after the fetch, up to the assignment of \<open>lastResult\<close>:
  \<open>multiResults\<close> is replaced, the transitions from not live to live are collected
  against the previous \<open>multiResults\<close> (or, when there is none, by the single-channel
  rule on \<open>lastStatus\<close>), and an alert is started when there is one.
\<close>

definition recordResult ::
  "int \<Rightarrow> ActionState \<Rightarrow> StatusResult \<Rightarrow> StatusResult list \<Rightarrow> ActionState" where
  "recordResult now state result results =
     (let oldMultiResults = multiResults state;
          state1 = state\<lparr>multiResults := Some results\<rparr>;
          newAlertingChannels =
            (case oldMultiResults of
               Some olds \<Rightarrow> detectTransitions olds results (channels state1)
             | None \<Rightarrow>
                 (case channels state1 of
                    [channel] \<Rightarrow>
                      if lastStatus state1 = Known S_offline \<and> status result = S_live
                      then [channel] else []
                  | _ \<Rightarrow> []));
          state2 = (if length newAlertingChannels > 0
                    then startAlert now (state1\<lparr>alertingChannels := set newAlertingChannels\<rparr>)
                    else state1)
      in state2\<lparr>lastStatus := Known (status result), lastResult := Some result\<rparr>)"

text \<open>\<open>refresh\<close>: the new state, the image cache and the calls made on the host.\<close>

definition refresh ::
  "platform \<Rightarrow> fetchFn \<Rightarrow> int \<Rightarrow> ActionState \<Rightarrow> imageCache
     \<Rightarrow> ActionState \<times> imageCache \<times> effect list" where
  "refresh pf f now state imageCache =
     (if length (channels state) = 0 then (state, imageCache, [])
      else
        (let (fetchedOrErr, cache1) =
               (case channels state of
                  [channel] \<Rightarrow>
                    (case f channel imageCache of
                       (Inl e, c) \<Rightarrow> (Inl e, c)
                     | (Inr result, c) \<Rightarrow> (Inr (Fetched result [result]), c))
                | chans \<Rightarrow>
                    (let (x, c) = fetchMulti pf f now chans imageCache in (Inr x, c)))
         in (case fetchedOrErr of
               Inl e \<Rightarrow> (state, cache1, errorEffects)
             | Inr AllInvalid \<Rightarrow> (state, cache1, [SetImage redPng, SetTitle ''Not Found''])
             | Inr (Fetched result results) \<Rightarrow>
                 (let state3 = recordResult now state result results
                  in if alertTimer state3 = None then
                       (case render pf now result False state3 cache1 of
                          Inl e \<Rightarrow> (state3, cache1, errorEffects)
                        | Inr (effs, cache2) \<Rightarrow> (state3, cache2, effs))
                     else (state3, cache1, [])))))"

section \<open>live-status-action.ts: configureChannel\<close>

text \<open>The channel list of a settings value: \<open>(channelValue ?? "").split(",")\<close>, trimmed,
  without the empty entries, and cut to four.\<close>

definition parseChannels :: "string option \<Rightarrow> string list" where
  "parseChannels channelValue =
     take 4 (filter (\<lambda>c. length c > 0)
               (map trim (split CHR '','' (case channelValue of None \<Rightarrow> [] | Some v \<Rightarrow> v))))"

definition configureChannel ::
  "platform \<Rightarrow> fetchFn \<Rightarrow> int \<Rightarrow> string option \<Rightarrow> ActionState \<Rightarrow> imageCache
     \<Rightarrow> ActionState \<times> imageCache \<times> effect list" where
  "configureChannel pf f now channelValue state imageCache =
     (let chans = parseChannels channelValue
      in if length chans = 0 then
           (clearTimers (state\<lparr>channels := []\<rparr>), imageCache,
            [SetTitle ''No Channel'', SetImage redPng])
         else if join '','' chans = join '','' (channels state) \<and> pollTimer state \<noteq> None then
           (state, imageCache, [])
         else
           (let (state1, cache1, effs) = refresh pf f now (state\<lparr>channels := chans\<rparr>) imageCache
            in (startPolling state1, cache1, effs)))"

section \<open>tokenManager.ts: refreshTokens\<close>

text \<open>The named fields of \<open>TokenEndpointResponse\<close> and of \<open>ServerMetadata\<close> that the
  token manager reads or copies.\<close>

record TokenEndpointResponse =
  access_token :: "string option"
  token_type :: "string option"
  id_token :: "string option"
  refresh_token :: "string option"
  scope :: "string option"
  expires_at :: "int option"
  expires_in :: "int option"




text \<open>The response of the worker as far as it is read: \<open>ok\<close>, \<open>statusText\<close>, and the
  outcome of \<open>response.json()\<close>.\<close>

record httpResponse =
  ok :: bool
  statusText :: string
  json :: "js_error + TokenEndpointResponse"







section \<open>Counting the elements of an SVG text\<close>

text \<open>The number of positions of a text at which a pattern begins.\<close>

fun startsWith :: "string \<Rightarrow> string \<Rightarrow> bool" where
  "startsWith [] s = True"
| "startsWith (p # ps) [] = False"
| "startsWith (p # ps) (c # cs) = (p = c \<and> startsWith ps cs)"

fun countOccurrences :: "string \<Rightarrow> string \<Rightarrow> nat" where
  "countOccurrences pat [] = 0"
| "countOccurrences pat (c # cs) =
     (if startsWith pat (c # cs) then 1 else 0) + countOccurrences pat cs"

section \<open>Sequences of calls of getProcessedImage\<close>




section \<open>Sample inputs\<close>

text \<open>\<open>checkStreamerStatus\<close> never rejects: as a fetch of \<open>refresh\<close> it always yields
  a result.\<close>

definition fetchWith :: "platform \<Rightarrow> fetchEnv \<Rightarrow> int \<Rightarrow> fetchFn" where
  "fetchWith pf env now =
     (\<lambda>channel imageCache.
        case checkStreamerStatus pf env now channel imageCache of (r, c) \<Rightarrow> (Inr r, c))"

definition samplePlatform :: platform where
  "samplePlatform =
     \<lparr>jsonStringify = (\<lambda>ov. title ov), toBase64 = (\<lambda>s. s), textBody = (\<lambda>ov. title ov)\<rparr>"

text \<open>An upstream service that knows no channel.\<close>

definition notFoundEnv :: fetchEnv where
  "notFoundEnv = \<lparr>fetchChannelStatus = (\<lambda>slug. Inr None), loadRawImage = (\<lambda>slug url. None)\<rparr>"

definition threeChannels :: ActionState where
  "threeChannels = initialState\<lparr>channels := [''alpha'', ''beta'', ''gamma'']\<rparr>"







text \<open>Channels without a profile image, an upstream service on which every channel is
  offline, one on which only \<open>alpha\<close> is live, and the state of a button that watches
  \<open>alpha\<close> and \<open>beta\<close> after a poll that found both offline.\<close>

definition channelStatusOf :: "bool \<Rightarrow> string \<Rightarrow> KickChannelStatus" where
  "channelStatusOf lv name =
     \<lparr>chIsLive = lv, chDisplayName = name, profileImageUrl = None, liveStatusText = None,
      chViewerCount = None, chCategory = None\<rparr>"

definition allOfflineEnv :: fetchEnv where
  "allOfflineEnv =
     \<lparr>fetchChannelStatus = (\<lambda>slug. Inr (Some (channelStatusOf False slug))),
      loadRawImage = (\<lambda>slug url. None)\<rparr>"

definition alphaLiveEnv :: fetchEnv where
  "alphaLiveEnv =
     \<lparr>fetchChannelStatus = (\<lambda>slug. Inr (Some (channelStatusOf (slug = ''alpha'') slug))),
      loadRawImage = (\<lambda>slug url. None)\<rparr>"

definition offlineResult :: "string \<Rightarrow> StatusResult" where
  "offlineResult name = (plainResult S_offline (Some name))"

definition liveResult :: "string \<Rightarrow> StatusResult" where
  "liveResult name = (plainResult S_live (Some name))\<lparr>isLive := True\<rparr>"

definition twoOffline :: ActionState where
  "twoOffline =
     initialState
       \<lparr>channels := [''alpha'', ''beta''],
        pollTimer := Some (Interval 60000),
        lastStatus := Known S_offline,
        multiResults := Some [offlineResult ''alpha'', offlineResult ''beta'']\<rparr>"

text \<open>An upstream service that cannot be reached, the state of a fresh button configured
  for \<open>alpha\<close> while it is unreachable, and the state after the next poll, one minute
  later, finds \<open>alpha\<close> live.\<close>

definition unreachableEnv :: fetchEnv where
  "unreachableEnv =
     \<lparr>fetchChannelStatus = (\<lambda>slug. Inl (Error ''fetch failed'')),
      loadRawImage = (\<lambda>slug url. None)\<rparr>"

definition afterFailedPoll :: ActionState where
  "afterFailedPoll =
     fst (configureChannel samplePlatform (fetchWith samplePlatform unreachableEnv 0) 0
            (Some ''alpha'') initialState [])"

definition afterLivePoll :: ActionState where
  "afterLivePoll =
     fst (refresh samplePlatform (fetchWith samplePlatform alphaLiveEnv 60000) 60000
            afterFailedPoll [])"

text \<open>A button configured for the one channel \<open>alpha\<close>, an offline result that has
  a processed image, and a live result with a raw image and a category.\<close>

definition oneChannel :: ActionState where
  "oneChannel = initialState\<lparr>channels := [''alpha'']\<rparr>"

definition offlineWithImage :: StatusResult where
  "offlineWithImage =
     (plainResult S_offline (Some ''Alpha''))\<lparr>base64Image := Some ''data:image/svg+xml;base64,AAAA''\<rparr>"

definition liveWithRaw :: StatusResult where
  "liveWithRaw =
     (plainResult S_live (Some ''Alpha''))
       \<lparr>isLive := True, rawBase64Image := Some ''data:image/png;base64,BBBB'',
        category := Some ''Just Chatting and more''\<rparr>"

text \<open>Three collage items: one live channel and two offline ones.\<close>

definition threeItems :: "collageItem list" where
  "threeItems =
     [\<lparr>image = ''data:image/png;base64,AAAA'', live = True, isFlashing = None\<rparr>,
      \<lparr>image = ''data:image/png;base64,BBBB'', live = False, isFlashing = None\<rparr>,
      \<lparr>image = ''data:image/png;base64,CCCC'', live = False, isFlashing = None\<rparr>]"




section \<open>The all-invalid refresh\<close>

lemma fetchAll_Cons_fst:
  "fst (fetchAll f (ch # rest) c) =
     (case fst (f ch c) of Inl e \<Rightarrow> plainResult S_error (Some ch) | Inr x \<Rightarrow> x)
       # fst (fetchAll f rest (snd (f ch c)))"
  by (simp add: Let_def split: prod.splits)

lemma fetchAll_length: "length (fst (fetchAll f chans c)) = length chans"
proof (induction chans arbitrary: c)
  case Nil
  then show ?case by simp
next
  case (Cons ch rest)
  show ?case unfolding fetchAll_Cons_fst using Cons.IH by simp
qed

lemma fetchAll_all_not_found:
  assumes "\<forall>ch \<in> set chans. \<forall>c. \<exists>r. fst (f ch c) = Inr r \<and> status r = S_not_found"
  shows "\<forall>r \<in> set (fst (fetchAll f chans c)). status r = S_not_found"
  using assms
proof (induction chans arbitrary: c)
  case Nil
  then show ?case by simp
next
  case (Cons ch rest)
  from Cons.prems obtain r where r: "fst (f ch c) = Inr r" "status r = S_not_found"
    by (metis list.set_intros(1))
  have rest: "\<forall>x \<in> set (fst (fetchAll f rest (snd (f ch c)))). status x = S_not_found"
    using Cons.IH Cons.prems by simp
  show ?case unfolding fetchAll_Cons_fst using r rest by simp
qed

text \<open>
  Claim C1. In a refresh of a configuration of two or more channels in which every fetch
  resolves as not found, \<open>refresh\<close> returns after the calls that show the red image and
  the title "Not Found", and leaves the state as it was: the configured channel list and
  its length are unchanged.
\<close>

theorem refresh_all_not_found:
  assumes multi: "length (channels state) \<ge> 2"
    and nf: "\<forall>ch \<in> set (channels state). \<forall>c. \<exists>r. fst (f ch c) = Inr r \<and> status r = S_not_found"
  shows "fst (refresh pf f now state imageCache) = state
       \<and> snd (snd (refresh pf f now state imageCache)) = [SetImage redPng, SetTitle ''Not Found'']
       \<and> channels (fst (refresh pf f now state imageCache)) = channels state
       \<and> length (channels (fst (refresh pf f now state imageCache))) = length (channels state)"
proof -
  obtain a b rest where chans: "channels state = a # b # rest"
    using multi by (cases "channels state"; cases "tl (channels state)") auto
  have all: "\<forall>r \<in> set (fst (fetchAll f (channels state) imageCache)). status r = S_not_found"
    using fetchAll_all_not_found[OF nf] .
  have len: "length (fst (fetchAll f (channels state) imageCache)) = length (channels state)"
    by (rule fetchAll_length)
  have filt: "filter (\<lambda>r. status r \<noteq> S_not_found) (fst (fetchAll f (channels state) imageCache)) = []"
    using all by (simp add: filter_empty_conv)
  have fm: "fst (fetchMulti pf f now (channels state) imageCache) = AllInvalid"
    using filt len multi
    by (auto simp: fetchMulti_def Let_def split: prod.splits)
  have "fst (refresh pf f now state imageCache) = state
      \<and> snd (snd (refresh pf f now state imageCache)) = [SetImage redPng, SetTitle ''Not Found'']"
    using fm chans
    by (auto simp: refresh_def Let_def split: prod.splits)
  then show ?thesis by simp
qed

theorem refresh_all_not_found_witness:
  "length (channels threeChannels) = 3
   \<and> fst (refresh samplePlatform (fetchWith samplePlatform notFoundEnv 0) 0 threeChannels []) = threeChannels
   \<and> snd (snd (refresh samplePlatform (fetchWith samplePlatform notFoundEnv 0) 0 threeChannels []))
       = [SetImage redPng, SetTitle ''Not Found'']
   \<and> length (channels (fst (refresh samplePlatform (fetchWith samplePlatform notFoundEnv 0) 0 threeChannels []))) = 3"
proof -
  have len: "length (channels threeChannels) \<ge> 2"
    by (simp add: threeChannels_def)
  have nf: "\<forall>ch \<in> set (channels threeChannels). \<forall>c. \<exists>r.
              fst (fetchWith samplePlatform notFoundEnv 0 ch c) = Inr r \<and> status r = S_not_found"
    by (simp add: threeChannels_def fetchWith_def checkStreamerStatus_def notFoundEnv_def
        trim_def isWhiteSpace_def plainResult_def)
  show ?thesis
    using refresh_all_not_found [OF len nf, of samplePlatform 0 "[]"]
    by (simp add: threeChannels_def)
qed

section \<open>Failures of a token refresh\<close>



section \<open>wrapText on a word of carriage returns\<close>

text \<open>
  Claim C10, at the input of four carriage returns and \<open>maxLength = 3\<close>: the text is
  longer than 3, it is one word, the pattern \<open>.{1,3}\<close> matches nowhere in it, and it is
  returned as it is; it has no line feed, so it is one line of length 4.
\<close>

theorem wrapText_carriage_returns:
  "wrapText (replicate 4 (CHR 0x0D)) 3 = Inr (replicate 4 (CHR 0x0D))
   \<and> split (CHR 0x0A) (replicate 4 (CHR 0x0D)) = [replicate 4 (CHR 0x0D)]
   \<and> 3 < length (replicate 4 (CHR 0x0D))"
  by (simp add: wrapText_def forceSplit_def isLineTerminator_def numeral_eq_Suc)

section \<open>Transitions from not live to live\<close>

lemma refresh_fst_multi:
  assumes "channels state = a # b # rest"
    and "fst (fetchMulti pf f now (channels state) imageCache) = Fetched result results"
  shows "fst (refresh pf f now state imageCache) = recordResult now state result results"
  using assms
  by (auto simp: refresh_def Let_def split: prod.splits sum.splits)

lemma refresh_fst_single:
  assumes "channels state = [channel]"
    and "fst (f channel imageCache) = Inr result"
  shows "fst (refresh pf f now state imageCache) = recordResult now state result [result]"
  using assms
  by (auto simp: refresh_def Let_def split: prod.splits sum.splits)

lemma fetchMulti_all_valid:
  assumes "fst (fetchAll f chans imageCache) = news"
    and "\<forall>r \<in> set news. status r \<noteq> S_not_found"
    and "news \<noteq> []"
  shows "\<exists>result. fst (fetchMulti pf f now chans imageCache) = Fetched result news"
proof -
  have "filter (\<lambda>r. status r \<noteq> S_not_found) news = news"
    using assms(2) by (simp add: filter_id_conv)
  then show ?thesis
    using assms(1,3)
    by (auto simp: fetchMulti_def Let_def split: prod.splits)
qed

lemma detectTransitions_aligned:
  assumes "length olds = length news" and "length chans = length news"
  shows "detectTransitions olds news chans =
           [chans ! i. i \<leftarrow> [0..<length news],
              \<not> isLive (olds ! i) \<and> isLive (news ! i) \<and> chans ! i \<noteq> []]"
  unfolding detectTransitions_def mapIndexed_def Let_def
  using assms
  by (auto intro!: arg_cong[where f=concat] map_cong simp: truthy_def orElse_def)


lemma recordResult_aligned:
  assumes "multiResults state = Some olds"
    and "length olds = length results" and "length (channels state) = length results"
  shows "recordResult now state result results =
     (let chans = channels state;
          fired = [chans ! i. i \<leftarrow> [0..<length results],
                     \<not> isLive (olds ! i) \<and> isLive (results ! i) \<and> chans ! i \<noteq> []];
          state1 = state\<lparr>multiResults := Some results\<rparr>;
          state2 = (if fired \<noteq> []
                    then startAlert now (state1\<lparr>alertingChannels := set fired\<rparr>)
                    else state1)
      in state2\<lparr>lastStatus := Known (status result), lastResult := Some result\<rparr>)"
  using assms detectTransitions_aligned [of olds results "channels state"]
  by (simp add: recordResult_def Let_def)

lemma alphaLive_fetchAll:
  "fst (fetchAll (fetchWith samplePlatform alphaLiveEnv 0) [''alpha'', ''beta''] [])
     = [liveResult ''alpha'', offlineResult ''beta'']"
  by code_simp

lemma alpha_beta_fired:
    "[[''alpha'', ''beta''] ! i. i \<leftarrow> [0..<length [''alpha'', ''beta'']],
        \<not> isLive ([offlineResult ''alpha'', offlineResult ''beta''] ! i)
        \<and> isLive ([liveResult ''alpha'', offlineResult ''beta''] ! i)
        \<and> [''alpha'', ''beta''] ! i \<noteq> []] = [''alpha'']"
    by code_simp

text \<open>
  Claim C4. In a refresh of two or more channels whose previous and new result sequences
  both have the length of the configured channel list (no channel resolves as not found),
  the transitions are matched by position: the alerting set is the set of the configured
  slugs at the indices where the previous result is not live and the new one is live, and
  the alert timer is started when there is such an index. For the channels \<open>alpha\<close>,
  \<open>beta\<close> with previous results offline, offline and new results live, offline, the
  alerting set is exactly \<open>{alpha}\<close>.
\<close>

theorem multi_channel_transitions_positional:
  assumes multi: "length (channels state) \<ge> 2"
    and fetched: "fst (fetchAll f (channels state) imageCache) = news"
    and valid: "\<forall>r \<in> set news. status r \<noteq> S_not_found"
    and old: "multiResults state = Some olds"
    and aligned: "length olds = length (channels state)"
  shows "let chans = channels state;
             fired = [chans ! i. i \<leftarrow> [0..<length chans],
                        \<not> isLive (olds ! i) \<and> isLive (news ! i) \<and> chans ! i \<noteq> []];
             state' = fst (refresh pf f now state imageCache)
         in multiResults state' = Some news \<and> channels state' = chans \<and>
            (if fired \<noteq> []
             then alertingChannels state' = set fired \<and> alertTimer state' = Some (Interval 1000)
             else alertingChannels state' = alertingChannels state
                  \<and> alertTimer state' = alertTimer state)"
proof -
  obtain a b rest where chans: "channels state = a # b # rest"
    using multi by (cases "channels state"; cases "tl (channels state)") auto
  have len: "length news = length (channels state)"
    using fetched fetchAll_length [of f "channels state" imageCache] by simp
  then have ne: "news \<noteq> []" using multi by auto
  obtain result where fm: "fst (fetchMulti pf f now (channels state) imageCache) = Fetched result news"
    using fetchMulti_all_valid [OF fetched valid ne] by blast
  have r: "fst (refresh pf f now state imageCache) = recordResult now state result news"
    by (rule refresh_fst_multi [OF chans fm])
  have a1: "length olds = length news" using aligned len by simp
  have a2: "length (channels state) = length news" using len by simp
  define fired where
    "fired = [channels state ! i. i \<leftarrow> [0..<length news],
                \<not> isLive (olds ! i) \<and> isLive (news ! i) \<and> channels state ! i \<noteq> []]"
  have rr: "recordResult now state result news =
     (if fired \<noteq> []
      then startAlert now (state\<lparr>multiResults := Some news, alertingChannels := set fired\<rparr>)
      else state\<lparr>multiResults := Some news\<rparr>)
       \<lparr>lastStatus := Known (status result), lastResult := Some result\<rparr>"
    unfolding recordResult_aligned [OF old a1 a2, of now result] fired_def Let_def
    by simp
  have goal: "multiResults (recordResult now state result news) = Some news
      \<and> channels (recordResult now state result news) = channels state
      \<and> (if fired \<noteq> []
          then alertingChannels (recordResult now state result news) = set fired
               \<and> alertTimer (recordResult now state result news) = Some (Interval 1000)
          else alertingChannels (recordResult now state result news) = alertingChannels state
               \<and> alertTimer (recordResult now state result news) = alertTimer state)"
    unfolding rr by (cases "fired = []") (simp_all add: startAlert_def)
  show ?thesis
    using goal unfolding r fired_def Let_def a2 by simp
qed

theorem multi_channel_transitions_positional_witness:
  "channels twoOffline = [''alpha'', ''beta'']
   \<and> multiResults twoOffline = Some [offlineResult ''alpha'', offlineResult ''beta'']
   \<and> multiResults (fst (refresh samplePlatform (fetchWith samplePlatform alphaLiveEnv 0) 0 twoOffline []))
       = Some [liveResult ''alpha'', offlineResult ''beta'']
   \<and> alertingChannels (fst (refresh samplePlatform (fetchWith samplePlatform alphaLiveEnv 0) 0 twoOffline []))
       = {''alpha''}"
proof -
  have twoOffline_channels: "channels twoOffline = [''alpha'', ''beta'']"
    by (simp add: twoOffline_def)
  have twoOffline_multiResults:
    "multiResults twoOffline = Some [offlineResult ''alpha'', offlineResult ''beta'']"
    by (simp add: twoOffline_def)
  have multi: "length (channels twoOffline) \<ge> 2"
    by (simp add: twoOffline_channels)
  have fetched: "fst (fetchAll (fetchWith samplePlatform alphaLiveEnv 0) (channels twoOffline) [])
      = [liveResult ''alpha'', offlineResult ''beta'']"
    by (simp only: twoOffline_channels alphaLive_fetchAll)
  have valid: "\<forall>r \<in> set [liveResult ''alpha'', offlineResult ''beta'']. status r \<noteq> S_not_found"
    by (simp add: liveResult_def offlineResult_def plainResult_def)
  have aligned: "length [offlineResult ''alpha'', offlineResult ''beta''] = length (channels twoOffline)"
    by (simp add: twoOffline_channels)
  note th = multi_channel_transitions_positional
      [OF multi fetched valid twoOffline_multiResults aligned, of samplePlatform 0,
       unfolded Let_def twoOffline_channels alpha_beta_fired]
  show ?thesis
    using th by (simp add: twoOffline_channels twoOffline_multiResults)
qed

section \<open>Transitions of a single channel\<close>

lemma configureChannel_fresh:
  assumes "parseChannels channelValue = chans" and "chans \<noteq> []" and "pollTimer state = None"
  shows "fst (configureChannel pf f now channelValue state imageCache)
           = startPolling (fst (refresh pf f now (state\<lparr>channels := chans\<rparr>) imageCache))"
  using assms
  by (auto simp: configureChannel_def Let_def split: prod.splits)

lemma parse_alpha: "parseChannels (Some ''alpha'') = [''alpha'']"
  by (simp add: parseChannels_def trim_def isWhiteSpace_def)

lemma fetch_unreachable:
  "fst (fetchWith samplePlatform unreachableEnv 0 ''alpha'' c) = Inr (plainResult S_error (Some ''alpha''))"
  by (simp add: fetchWith_def checkStreamerStatus_def unreachableEnv_def trim_def isWhiteSpace_def)

lemma fetch_alpha_live:
  "fst (fetchWith samplePlatform alphaLiveEnv t ''alpha'' c) = Inr (liveResult ''alpha'')"
  by (simp add: fetchWith_def checkStreamerStatus_def alphaLiveEnv_def trim_def isWhiteSpace_def
      buildStatusResult_def channelStatusOf_def liveResult_def plainResult_def)

lemma afterFailedPoll_eq:
  "afterFailedPoll =
     initialState\<lparr>channels := [''alpha''], pollTimer := Some (Interval 60000),
                  lastStatus := Known S_error,
                  lastResult := Some (plainResult S_error (Some ''alpha'')),
                  multiResults := Some [plainResult S_error (Some ''alpha'')]\<rparr>"
proof -
  have poll: "pollTimer initialState = None"
    by (simp add: initialState_def)
  have r: "fst (refresh samplePlatform (fetchWith samplePlatform unreachableEnv 0) 0
                 (initialState\<lparr>channels := [''alpha'']\<rparr>) [])
           = recordResult 0 (initialState\<lparr>channels := [''alpha'']\<rparr>)
               (plainResult S_error (Some ''alpha'')) [plainResult S_error (Some ''alpha'')]"
    by (rule refresh_fst_single) (simp, rule fetch_unreachable)
  show ?thesis
    unfolding afterFailedPoll_def configureChannel_fresh [OF parse_alpha _ poll, simplified] r
    by (simp add: initialState_def recordResult_def startPolling_def plainResult_def)
qed

lemma afterLivePoll_eq:
  "afterLivePoll =
     initialState\<lparr>channels := [''alpha''], pollTimer := Some (Interval 60000),
                  lastStatus := Known S_live,
                  alertEndTime := 120000,
                  alertTimer := Some (Interval 1000),
                  lastResult := Some (liveResult ''alpha''),
                  alertToggleState := True,
                  multiResults := Some [liveResult ''alpha''],
                  alertingChannels := {''alpha''}\<rparr>"
proof -
  have r: "fst (refresh samplePlatform (fetchWith samplePlatform alphaLiveEnv 60000) 60000
                 afterFailedPoll [])
           = recordResult 60000 afterFailedPoll (liveResult ''alpha'') [liveResult ''alpha'']"
    by (rule refresh_fst_single) (simp add: afterFailedPoll_eq, rule fetch_alpha_live)
  have "afterLivePoll = recordResult 60000 afterFailedPoll (liveResult ''alpha'') [liveResult ''alpha'']"
    unfolding afterLivePoll_def by (rule r)
  also have "\<dots> = initialState\<lparr>channels := [''alpha''], pollTimer := Some (Interval 60000),
                  lastStatus := Known S_live,
                  alertEndTime := 120000,
                  alertTimer := Some (Interval 1000),
                  lastResult := Some (liveResult ''alpha''),
                  alertToggleState := True,
                  multiResults := Some [liveResult ''alpha''],
                  alertingChannels := {''alpha''}\<rparr>"
    by (simp add: afterFailedPoll_eq initialState_def recordResult_def
      detectTransitions_def mapIndexed_def startAlert_def truthy_def orElse_def
      plainResult_def liveResult_def)
  finally show ?thesis .
qed

text \<open>
  Claim C3, at the input of a button for the one channel \<open>alpha\<close> whose first poll
  ended in an error and whose next poll, one minute later, finds the channel live: the
  previous status is \<open>error\<close>, not \<open>offline\<close>, and the refresh puts \<open>alpha\<close>
  into the alerting set and starts the alert timer. The snapshot of the first poll is
  there, so the transition is taken by the comparison of the results (not live before,
  live now), and the test of \<open>lastStatus\<close> against \<open>offline\<close> is not reached.
\<close>

theorem error_then_live_starts_alert:
  "channels afterFailedPoll = [''alpha'']
   \<and> lastStatus afterFailedPoll = Known S_error
   \<and> lastStatus afterLivePoll = Known S_live
   \<and> alertingChannels afterLivePoll = {''alpha''}
   \<and> alertTimer afterLivePoll = Some (Interval 1000)"
  by (simp add: afterFailedPoll_eq afterLivePoll_eq initialState_def)

section \<open>The channel list of a configuration\<close>

lemma split_not_Nil: "split sep s \<noteq> []"
  by (induction s) (auto split: list.splits)

lemma split_no_sep: "w \<in> set (split sep s) \<Longrightarrow> sep \<notin> set w"
  by (induction s arbitrary: w) (auto split: list.splits if_splits)

lemma join_split: "join [sep] (split sep s) = s"
proof (induction s)
  case Nil
  then show ?case by simp
next
  case (Cons c cs)
  show ?case
  proof (cases "c = sep")
    case True
    then show ?thesis using Cons split_not_Nil [of sep cs]
      by (cases "split sep cs") auto
  next
    case False
    then show ?thesis using Cons split_not_Nil [of sep cs]
      by (cases "split sep cs"; cases "tl (split sep cs)") auto
  qed
qed

lemma split_append_no_sep:
  "sep \<notin> set x \<Longrightarrow> split sep (x @ sep # rest) = x # split sep rest"
  by (induction x) (auto split: list.splits)

lemma split_no_sep_whole: "sep \<notin> set x \<Longrightarrow> split sep x = [x]"
  by (induction x) (auto split: list.splits)

lemma split_join:
  "xs \<noteq> [] \<Longrightarrow> \<forall>x \<in> set xs. sep \<notin> set x \<Longrightarrow> split sep (join [sep] xs) = xs"
proof (induction "[sep]" xs rule: join.induct)
  case 1
  then show ?case by simp
next
  case (2 x)
  then show ?case by (simp add: split_no_sep_whole)
next
  case (3 x y ys)
  then show ?case by (simp add: split_append_no_sep)
qed

lemma join_inj:
  assumes "join [sep] xs = join [sep] ys" and "xs \<noteq> []" and "ys \<noteq> []"
    and "\<forall>x \<in> set xs. sep \<notin> set x" and "\<forall>y \<in> set ys. sep \<notin> set y"
  shows "xs = ys"
  using assms by (metis split_join)

lemma join_nonempty:
  "xs \<noteq> [] \<Longrightarrow> \<forall>x \<in> set xs. x \<noteq> [] \<Longrightarrow> join sep xs \<noteq> []"
  by (induction sep xs rule: join.induct) auto

lemma set_trim: "set (trim s) \<subseteq> set s"
proof -
  have "set (trim s) = set (dropWhile isWhiteSpace (rev (dropWhile isWhiteSpace s)))"
    by (simp add: trim_def)
  also have "\<dots> \<subseteq> set (rev (dropWhile isWhiteSpace s))"
    by (rule set_dropWhileD [THEN subsetI]) 
  also have "\<dots> \<subseteq> set s"
    using set_dropWhileD [of _ isWhiteSpace s] by auto
  finally show ?thesis .
qed

lemma trim_idem: "trim (trim s) = trim s"
proof -
  define t where "t = dropWhile isWhiteSpace s"
  define u where "u = rev (dropWhile isWhiteSpace (rev t))"
  have tu: "t = u @ rev (takeWhile isWhiteSpace (rev t))"
    unfolding u_def
    by (metis rev_append rev_rev_ident takeWhile_dropWhile_id)
  have ht: "t \<noteq> [] \<Longrightarrow> \<not> isWhiteSpace (hd t)"
    unfolding t_def by (rule hd_dropWhile)
  have du: "dropWhile isWhiteSpace u = u"
  proof (cases "u = []")
    case True
    then show ?thesis by simp
  next
    case False
    then have "hd u = hd t" using tu by (metis hd_append2)
    moreover have "t \<noteq> []" using False tu by auto
    ultimately show ?thesis using ht False
      by (simp add: dropWhile_eq_self_iff)
  qed
  have "trim u = rev (dropWhile isWhiteSpace (rev u))"
    by (simp add: trim_def du)
  also have "rev u = dropWhile isWhiteSpace (rev t)"
    by (simp add: u_def)
  also have "rev (dropWhile isWhiteSpace (dropWhile isWhiteSpace (rev t))) = u"
    by (simp add: u_def)
  finally show ?thesis
    by (simp add: trim_def u_def t_def)
qed


lemma recordResult_channels: "channels (recordResult now state result results) = channels state"
  by (simp add: recordResult_def Let_def startAlert_def)

lemma refresh_channels: "channels (fst (refresh pf f now state imageCache)) = channels state"
  by (auto simp: refresh_def Let_def recordResult_channels
      split: prod.splits sum.splits fetched.splits list.splits)

lemma parseChannels_eq:
  "parseChannels channelValue =
     take 4 (filter (\<lambda>c. c \<noteq> [])
               (map trim (split CHR '','' (case channelValue of None \<Rightarrow> [] | Some v \<Rightarrow> v))))"
  by (simp add: parseChannels_def)

lemma parseChannels_entries:
  assumes "c \<in> set (parseChannels channelValue)"
  shows "c \<noteq> [] \<and> trim c = c \<and> CHR '','' \<notin> set c"
proof -
  from assms have "c \<in> set (filter (\<lambda>c. c \<noteq> [])
      (map trim (split CHR '','' (case channelValue of None \<Rightarrow> [] | Some v \<Rightarrow> v))))"
    unfolding parseChannels_eq by (rule in_set_takeD)
  then obtain w where w: "w \<in> set (split CHR '','' (case channelValue of None \<Rightarrow> [] | Some v \<Rightarrow> v))"
    and c: "c = trim w" "c \<noteq> []"
    by auto
  have "CHR '','' \<notin> set w" using w by (rule split_no_sep)
  then have "CHR '','' \<notin> set c" using set_trim [of w] c by auto
  then show ?thesis using c by (simp add: trim_idem)
qed

lemma configureChannel_fst:
  "fst (configureChannel pf f now channelValue state imageCache) =
     (let chans = parseChannels channelValue
      in if chans = [] then clearTimers (state\<lparr>channels := []\<rparr>)
         else if join '','' chans = join '','' (channels state) \<and> pollTimer state \<noteq> None
         then state
         else startPolling (fst (refresh pf f now (state\<lparr>channels := chans\<rparr>) imageCache)))"
  by (cases "pollTimer state") (simp_all add: configureChannel_def Let_def split_beta)

text \<open>
  Claim C7. For every settings value, \<open>configureChannel\<close> leaves as the stored channel
  list the entries of the value split at the commas, each trimmed, without the empty ones,
  in their order, cut to the first four; every stored entry is non-empty, trimmed and free
  of commas. When that list is empty, the stored list is empty, both timers are cleared,
  and the calls made are the title "No Channel" and the red image. The stored list of
  the state before the call is one left by an earlier configuration: its entries have no
  comma.
\<close>

theorem configureChannel_channels:
  assumes inv: "\<forall>c \<in> set (channels state). CHR '','' \<notin> set c"
  shows "let raw = (case channelValue of None \<Rightarrow> [] | Some v \<Rightarrow> v);
             entries = filter (\<lambda>c. c \<noteq> []) (map trim (split CHR '','' raw));
             (state', cache', effs) = configureChannel pf f now channelValue state imageCache
         in channels state' = take 4 entries
          \<and> length (channels state') \<le> 4
          \<and> (\<forall>c \<in> set (channels state'). c \<noteq> [] \<and> trim c = c \<and> CHR '','' \<notin> set c)
          \<and> (take 4 entries = [] \<longrightarrow>
                pollTimer state' = None \<and> alertTimer state' = None
                \<and> effs = [SetTitle ''No Channel'', SetImage redPng])"
proof -
  define chans where "chans = parseChannels channelValue"
  have props: "\<forall>c \<in> set chans. c \<noteq> [] \<and> trim c = c \<and> CHR '','' \<notin> set c"
    unfolding chans_def using parseChannels_entries by blast
  have len: "length chans \<le> 4"
    unfolding chans_def parseChannels_eq by simp
  have ch: "channels (fst (configureChannel pf f now channelValue state imageCache)) = chans"
  proof (cases "chans = []")
    case True
    then show ?thesis
      by (simp add: configureChannel_def chans_def [symmetric] clearTimers_def)
  next
    case False
    show ?thesis
    proof (cases "join '','' chans = join '','' (channels state) \<and> pollTimer state \<noteq> None")
      case True
      have "channels state \<noteq> []"
      proof
        assume "channels state = []"
        then have "join '','' chans = []" using True by simp
        then show False using join_nonempty [OF False, of "'',''"] props by blast
      qed
      then have "chans = channels state"
        using join_inj [of "CHR '',''" chans "channels state"] True False props inv by auto
      then show ?thesis using True False
        by (simp add: configureChannel_def chans_def [symmetric])
    next
      case noop: False
      have "fst (configureChannel pf f now channelValue state imageCache)
              = startPolling (fst (refresh pf f now (state\<lparr>channels := chans\<rparr>) imageCache))"
        using noop False
        by (simp only: configureChannel_fst Let_def chans_def [symmetric] if_False)
      then show ?thesis
        by (simp add: startPolling_def refresh_channels)
    qed
  qed
  have empty: "chans = [] \<Longrightarrow>
      pollTimer (fst (configureChannel pf f now channelValue state imageCache)) = None
      \<and> alertTimer (fst (configureChannel pf f now channelValue state imageCache)) = None
      \<and> snd (snd (configureChannel pf f now channelValue state imageCache))
          = [SetTitle ''No Channel'', SetImage redPng]"
    by (simp add: configureChannel_def chans_def [symmetric] clearTimers_def)
  have goal: "channels (fst (configureChannel pf f now channelValue state imageCache)) = chans
      \<and> length (channels (fst (configureChannel pf f now channelValue state imageCache))) \<le> 4
      \<and> (\<forall>c \<in> set (channels (fst (configureChannel pf f now channelValue state imageCache))).
            c \<noteq> [] \<and> trim c = c \<and> CHR '','' \<notin> set c)
      \<and> (chans = [] \<longrightarrow>
            pollTimer (fst (configureChannel pf f now channelValue state imageCache)) = None
            \<and> alertTimer (fst (configureChannel pf f now channelValue state imageCache)) = None
            \<and> snd (snd (configureChannel pf f now channelValue state imageCache))
                = [SetTitle ''No Channel'', SetImage redPng])"
    unfolding ch using props len empty by blast
  show ?thesis
    unfolding Let_def split_beta
    using goal [unfolded chans_def parseChannels_eq] .
qed



theorem configureChannel_channels_witness:
  "channels (fst (configureChannel samplePlatform (fetchWith samplePlatform notFoundEnv 0) 0
                    (Some '' alpha, ,beta ,gamma,delta,eps'') initialState []))
     = [''alpha'', ''beta'', ''gamma'', ''delta'']
   \<and> channels (fst (configureChannel samplePlatform (fetchWith samplePlatform notFoundEnv 0) 0
                    (Some '' , '') threeChannels [])) = []
   \<and> pollTimer (fst (configureChannel samplePlatform (fetchWith samplePlatform notFoundEnv 0) 0
                    (Some '' , '') threeChannels [])) = None
   \<and> snd (snd (configureChannel samplePlatform (fetchWith samplePlatform notFoundEnv 0) 0
                    (Some '' , '') threeChannels [])) = [SetTitle ''No Channel'', SetImage redPng]"
proof -
  have inv1: "\<forall>c \<in> set (channels initialState). CHR '','' \<notin> set c"
    by (simp add: initialState_def)
  have inv2: "\<forall>c \<in> set (channels threeChannels). CHR '','' \<notin> set c"
    by (simp add: threeChannels_def)
  have e1: "take 4 (filter (\<lambda>c. c \<noteq> [])
                (map trim (split CHR '','' '' alpha, ,beta ,gamma,delta,eps'')))
              = [''alpha'', ''beta'', ''gamma'', ''delta'']"
    by (simp add: trim_def isWhiteSpace_def)
  have e2: "take 4 (filter (\<lambda>c. c \<noteq> []) (map trim (split CHR '','' '' , ''))) = []"
    by (simp add: trim_def isWhiteSpace_def)
  show ?thesis
    using configureChannel_channels
            [where state = initialState and channelValue = "Some '' alpha, ,beta ,gamma,delta,eps''"
               and pf = samplePlatform and f = "fetchWith samplePlatform notFoundEnv 0"
               and now = 0 and imageCache = "[]", OF inv1, unfolded Let_def split_beta]
          configureChannel_channels
            [where state = threeChannels and channelValue = "Some '' , ''"
               and pf = samplePlatform and f = "fetchWith samplePlatform notFoundEnv 0"
               and now = 0 and imageCache = "[]", OF inv2, unfolded Let_def split_beta]
    unfolding option.case e1 e2
    by simp
qed

section \<open>Rendering a single channel\<close>

lemma forceSplit_total: "0 < n \<Longrightarrow> \<exists>s. forceSplit n line = Inr s"
  by (auto simp: forceSplit_def split: list.splits)

lemma mapE_total:
  assumes "\<And>x. \<exists>y. g x = Inr y"
  shows "\<exists>ys. mapE g xs = Inr ys"
proof (induction xs)
  case Nil
  then show ?case by simp
next
  case (Cons x xs)
  obtain y where "g x = Inr y" using assms by blast
  moreover obtain ys where "mapE g xs = Inr ys" using Cons by blast
  ultimately show ?case by simp
qed

lemma wrapText_total: "0 < n \<Longrightarrow> \<exists>s. wrapText t n = Inr s"
proof -
  assume n: "0 < n"
  have "\<And>ls. \<exists>ys. mapE (forceSplit n) ls = Inr ys"
    by (rule mapE_total) (rule forceSplit_total [OF n])
  then show ?thesis
    by (auto simp: wrapText_def split: list.splits sum.splits) (metis Inl_Inr_False)
qed

lemma renderFinish_calm:
  "\<not> (isAlerting \<and> alertToggleState state) \<Longrightarrow>
   renderFinish pf now result isAlerting state titleText imageSource imageCache
     = ([SetTitle titleText, SetImage (fallbackImage result imageSource)], imageCache)"
  unfolding renderFinish_def by (rule if_not_P)

lemma wrap_just_chatting:
  "wrapText ''Just Chatting and more'' 15 = Inr (''Just Chatting'' @ [CHR 0x0A] @ ''and more'')"
  by (simp add: wrapText_def forceSplit_def)

lemma getProcessedImage_fresh_nonempty:
  "fst (getProcessedImage pf now colorDataUri lv ov []) \<noteq> []"
  by (simp add: getProcessedImage_def Let_def dataUri_def)

text \<open>
  Claim C8, as stated, fails: for a result with status \<open>error\<close> the title is the
  configured channel followed by "Not Found", not the name followed by "ERROR"; and for an
  offline result that has a processed image the image shown is that image, not the static
  red indicator.
\<close>

theorem render_error_and_offline_image:
  "render samplePlatform 0 (plainResult S_error (Some ''alpha'')) False oneChannel []
     = Inr ([SetTitle (''alpha'' @ [CHR 0x0A] @ ''Not Found''), SetImage redPng], [])
   \<and> ''alpha'' @ [CHR 0x0A] @ ''Not Found''
       \<noteq> ''alpha'' @ [CHR 0x0A] @ toUpperCase (statusName S_error)
   \<and> render samplePlatform 0 offlineWithImage False oneChannel []
     = Inr ([SetTitle (''Alpha'' @ [CHR 0x0A] @ ''OFFLINE''),
             SetImage ''data:image/svg+xml;base64,AAAA''], [])
   \<and> ''data:image/svg+xml;base64,AAAA'' \<noteq> redPng"
  by (simp add: render_def renderFinish_def fallbackImage_def oneChannel_def initialState_def
      offlineWithImage_def plainResult_def truthy_def toUpperCase_def upperChar_def redPng_def)

text \<open>
  Claim C8, amended. In single-channel mode, outside a flash frame of an alert:
  a result with status \<open>error\<close>, or without a display name, gets the title of the
  configured channel (or "Unknown") followed by "Not Found", and the static red image;
  a not-found result with a display name gets the title "<name>\nNOT FOUND", an offline
  one "<name>\nOFFLINE", and the image is the result's own image when it has one and the
  static red indicator otherwise (green if the result were flagged live);
  a live result with a display name gets the empty title, and, when it has a raw image,
  the image is generated anew with the overlay whose title is the display name and whose
  subtitle is the category (or "Live") wrapped at width 15; without a raw image the image
  is the result's own image or the static indicator.
\<close>

theorem render_single_channel:
  assumes single: "channels state = [channel]"
    and calm: "\<not> (isAlerting \<and> alertToggleState state)"
  shows
   "(status result = S_error \<or> \<not> truthy (displayName result) \<longrightarrow>
       render pf now result isAlerting state imageCache
         = Inr ([SetTitle ((if channel = [] then ''Unknown'' else channel) @ [CHR 0x0A] @ ''Not Found''),
                 SetImage redPng], imageCache))
  \<and> (status result = S_not_found \<and> displayName result = Some name \<and> name \<noteq> [] \<longrightarrow>
       render pf now result isAlerting state imageCache
         = Inr ([SetTitle (name @ [CHR 0x0A] @ ''NOT FOUND''),
                 SetImage (fallbackImage result (base64Image result))], imageCache))
  \<and> (status result = S_offline \<and> displayName result = Some name \<and> name \<noteq> [] \<longrightarrow>
       render pf now result isAlerting state imageCache
         = Inr ([SetTitle (name @ [CHR 0x0A] @ ''OFFLINE''),
                 SetImage (fallbackImage result (base64Image result))], imageCache))
  \<and> (status result = S_live \<and> displayName result = Some name \<and> name \<noteq> []
       \<and> rawBase64Image result = Some raw \<and> raw \<noteq> [] \<longrightarrow>
       (\<exists>wrapped. wrapText (orElse (category result) ''Live'') 15 = Inr wrapped
          \<and> render pf now result isAlerting state imageCache
            = Inr ([SetTitle [],
                    SetImage (fallbackImage result
                      (Some (fst (getProcessedImage pf now raw True
                                    (Some \<lparr>title = name, subtitle = Some wrapped\<rparr>) imageCache))))],
                   snd (getProcessedImage pf now raw True
                          (Some \<lparr>title = name, subtitle = Some wrapped\<rparr>) imageCache))))
  \<and> (status result = S_live \<and> displayName result = Some name \<and> name \<noteq> []
       \<and> \<not> truthy (rawBase64Image result) \<longrightarrow>
       render pf now result isAlerting state imageCache
         = Inr ([SetTitle [], SetImage (fallbackImage result (base64Image result))], imageCache))"
proof -
  have c1: "status result = S_error \<or> \<not> truthy (displayName result) \<Longrightarrow>
       render pf now result isAlerting state imageCache
         = Inr ([SetTitle ((if channel = [] then ''Unknown'' else channel) @ [CHR 0x0A] @ ''Not Found''),
                 SetImage redPng], imageCache)"
    using single by (auto simp: render_def Let_def)
  have c2: "status result = S_not_found \<Longrightarrow> displayName result = Some name \<Longrightarrow> name \<noteq> [] \<Longrightarrow>
       render pf now result isAlerting state imageCache
         = Inr ([SetTitle (name @ [CHR 0x0A] @ ''NOT FOUND''),
                 SetImage (fallbackImage result (base64Image result))], imageCache)"
    using single calm by (simp add: render_def Let_def truthy_def renderFinish_calm)
  have c3: "status result = S_offline \<Longrightarrow> displayName result = Some name \<Longrightarrow> name \<noteq> [] \<Longrightarrow>
       render pf now result isAlerting state imageCache
         = Inr ([SetTitle (name @ [CHR 0x0A] @ ''OFFLINE''),
                 SetImage (fallbackImage result (base64Image result))], imageCache)"
    using single calm
    by (simp add: render_def Let_def truthy_def renderFinish_calm toUpperCase_def upperChar_def)
  have c4: "status result = S_live \<Longrightarrow> displayName result = Some name \<Longrightarrow> name \<noteq> [] \<Longrightarrow>
       rawBase64Image result = Some raw \<Longrightarrow> raw \<noteq> [] \<Longrightarrow>
       (\<exists>wrapped. wrapText (orElse (category result) ''Live'') 15 = Inr wrapped
          \<and> render pf now result isAlerting state imageCache
            = Inr ([SetTitle [],
                    SetImage (fallbackImage result
                      (Some (fst (getProcessedImage pf now raw True
                                    (Some \<lparr>title = name, subtitle = Some wrapped\<rparr>) imageCache))))],
                   snd (getProcessedImage pf now raw True
                          (Some \<lparr>title = name, subtitle = Some wrapped\<rparr>) imageCache)))"
  proof -
    assume a: "status result = S_live" "displayName result = Some name" "name \<noteq> []"
       "rawBase64Image result = Some raw" "raw \<noteq> []"
    obtain wrapped where w: "wrapText (orElse (category result) ''Live'') 15 = Inr wrapped"
      using wrapText_total [of 15] by auto
    have "render pf now result isAlerting state imageCache
            = Inr ([SetTitle [],
                    SetImage (fallbackImage result
                      (Some (fst (getProcessedImage pf now raw True
                                    (Some \<lparr>title = name, subtitle = Some wrapped\<rparr>) imageCache))))],
                   snd (getProcessedImage pf now raw True
                          (Some \<lparr>title = name, subtitle = Some wrapped\<rparr>) imageCache))"
      using single calm a w
      by (simp add: render_def Let_def truthy_def renderFinish_calm split_beta)
    then show ?thesis using w by blast
  qed
  have c5: "status result = S_live \<Longrightarrow> displayName result = Some name \<Longrightarrow> name \<noteq> [] \<Longrightarrow>
       \<not> truthy (rawBase64Image result) \<Longrightarrow>
       render pf now result isAlerting state imageCache
         = Inr ([SetTitle [], SetImage (fallbackImage result (base64Image result))], imageCache)"
    using single calm
    by (auto simp: render_def Let_def truthy_def renderFinish_calm split: option.splits)
  show ?thesis
    using c1 c2 c3 c4 c5 by blast
qed

theorem render_single_channel_witness:
  "render samplePlatform 0 (plainResult S_not_found (Some ''alpha'')) False oneChannel []
     = Inr ([SetTitle (''alpha'' @ [CHR 0x0A] @ ''NOT FOUND''), SetImage redPng], [])
   \<and> render samplePlatform 0 offlineWithImage False oneChannel []
     = Inr ([SetTitle (''Alpha'' @ [CHR 0x0A] @ ''OFFLINE''),
             SetImage ''data:image/svg+xml;base64,AAAA''], [])
   \<and> render samplePlatform 0 (plainResult S_error None) False oneChannel []
     = Inr ([SetTitle (''alpha'' @ [CHR 0x0A] @ ''Not Found''), SetImage redPng], [])
   \<and> render samplePlatform 0 liveWithRaw False oneChannel []
     = Inr ([SetTitle [],
             SetImage (fst (getProcessedImage samplePlatform 0 ''data:image/png;base64,BBBB'' True
                              (Some \<lparr>title = ''Alpha'',
                                     subtitle = Some (''Just Chatting'' @ [CHR 0x0A] @ ''and more'')\<rparr>) []))],
            snd (getProcessedImage samplePlatform 0 ''data:image/png;base64,BBBB'' True
                   (Some \<lparr>title = ''Alpha'',
                          subtitle = Some (''Just Chatting'' @ [CHR 0x0A] @ ''and more'')\<rparr>) []))
   \<and> render samplePlatform 0 (liveResult ''Alpha'') False oneChannel []
     = Inr ([SetTitle [], SetImage greenPng], [])"
proof -
  have single: "channels oneChannel = [''alpha'']"
    by (simp add: oneChannel_def)
  have calm: "\<not> (False \<and> alertToggleState oneChannel)"
    by simp
  note th = render_single_channel
               [where pf = samplePlatform and now = 0 and imageCache = "[]", OF single calm]
  have a: "render samplePlatform 0 (plainResult S_not_found (Some ''alpha'')) False oneChannel []
     = Inr ([SetTitle (''alpha'' @ [CHR 0x0A] @ ''NOT FOUND''), SetImage redPng], [])"
    using th [where result = "plainResult S_not_found (Some ''alpha'')" and name = "''alpha''"]
    by (simp add: plainResult_def fallbackImage_def)
  have b: "render samplePlatform 0 offlineWithImage False oneChannel []
     = Inr ([SetTitle (''Alpha'' @ [CHR 0x0A] @ ''OFFLINE''),
             SetImage ''data:image/svg+xml;base64,AAAA''], [])"
    using th [where result = offlineWithImage and name = "''Alpha''"]
    by (simp add: offlineWithImage_def plainResult_def fallbackImage_def)
  have c: "render samplePlatform 0 (plainResult S_error None) False oneChannel []
     = Inr ([SetTitle (''alpha'' @ [CHR 0x0A] @ ''Not Found''), SetImage redPng], [])"
    using th [where result = "plainResult S_error None"]
    by (simp add: plainResult_def)
  have d: "render samplePlatform 0 liveWithRaw False oneChannel []
     = Inr ([SetTitle [],
             SetImage (fst (getProcessedImage samplePlatform 0 ''data:image/png;base64,BBBB'' True
                              (Some \<lparr>title = ''Alpha'',
                                     subtitle = Some (''Just Chatting'' @ [CHR 0x0A] @ ''and more'')\<rparr>) []))],
            snd (getProcessedImage samplePlatform 0 ''data:image/png;base64,BBBB'' True
                   (Some \<lparr>title = ''Alpha'',
                          subtitle = Some (''Just Chatting'' @ [CHR 0x0A] @ ''and more'')\<rparr>) []))"
    using th [where result = liveWithRaw and name = "''Alpha''"
                and raw = "''data:image/png;base64,BBBB''"]
      wrap_just_chatting
      getProcessedImage_fresh_nonempty [of samplePlatform 0 "''data:image/png;base64,BBBB''" True
        "Some \<lparr>title = ''Alpha'', subtitle = Some (''Just Chatting'' @ [CHR 0x0A] @ ''and more'')\<rparr>"]
    by (simp add: liveWithRaw_def plainResult_def fallbackImage_def orElse_def)
  have e: "render samplePlatform 0 (liveResult ''Alpha'') False oneChannel []
     = Inr ([SetTitle [], SetImage greenPng], [])"
    using th [where result = "liveResult ''Alpha''" and name = "''Alpha''"]
    by (simp add: liveResult_def plainResult_def fallbackImage_def truthy_def)
  show ?thesis using a b c d e by blast
qed

section \<open>The collage of three items\<close>

lemma collageBorderPaths_3:
  "collageBorderPaths 3 =
     [''M 1,16.5 A 15,15 0 0 1 16,1 L 84,1 A 15,15 0 0 1 99,16.5'',
      ''M 99,17.5 L 99,84 A 15,15 0 0 1 84,99 L 50.5,99'',
      ''M 49.5,99 L 16,99 A 15,15 0 0 1 1,84 L 1,17.5'']"
  by code_simp

lemma collageClipDefs_3:
  \<open>collageClipDefs 3 =
     [''<clipPath id="clip0"><polygon points="50,50 0,17 0,0 100,0 100,17" /></clipPath>'',
      ''<clipPath id="clip1"><polygon points="50,50 100,17 100,100 50,100" /></clipPath>'',
      ''<clipPath id="clip2"><polygon points="50,50 50,100 0,100 0,17" /></clipPath>'']\<close>
  by code_simp

lemma natStr_digits: "natStr 0 = ''0''" "natStr 1 = ''1''" "natStr 2 = ''2''"
  by code_simp+



lemma collageSeparators_3:
  \<open>collageSeparators 3 =
     join [CHR 0x0A]
         [[],
          ''            <line x1="50" y1="50" x2="0" y2="17" stroke="black" stroke-width="2" />'',
          ''            <line x1="50" y1="50" x2="100" y2="17" stroke="black" stroke-width="2" />'',
          ''            <line x1="50" y1="50" x2="50" y2="100" stroke="black" stroke-width="2" />'',
          ''        '']\<close>
  by (simp add: collageSeparators_def)

lemma collageGeometries_3:
  \<open>collageGeometries 3 =
        [\<lparr>tag = ''polygon'', attrs = ''points="50,50 0,17 0,0 100,0 100,17"''\<rparr>,
         \<lparr>tag = ''polygon'', attrs = ''points="50,50 100,17 100,100 50,100"''\<rparr>,
         \<lparr>tag = ''polygon'', attrs = ''points="50,50 50,100 0,100 0,17"''\<rparr>]\<close>
  by (simp add: collageGeometries_def)

lemma upt_3: "[0..<3] = [0, 1, 2]"
  by code_simp


lemma startsWith_append_nl:
  "CHR 0x0A \<notin> set pat \<Longrightarrow> startsWith pat (a @ CHR 0x0A # b) = startsWith pat a"
  by (induction pat a rule: startsWith.induct) auto

lemma count_append_nl:
  assumes "CHR 0x0A \<notin> set pat" and "pat \<noteq> []"
  shows "countOccurrences pat (a @ CHR 0x0A # b) = countOccurrences pat a + countOccurrences pat b"
proof (induction a)
  case Nil
  have "\<not> startsWith pat (CHR 0x0A # b)"
    using assms by (cases pat) auto
  then show ?case by simp
next
  case (Cons c a)
  have "startsWith pat (c # a @ CHR 0x0A # b) = startsWith pat (c # a)"
    using startsWith_append_nl [OF assms(1), of "c # a" b] by simp
  then show ?case using Cons by simp
qed

lemma count_join_nl:
  assumes "CHR 0x0A \<notin> set pat" and "pat \<noteq> []"
  shows "countOccurrences pat (join [CHR 0x0A] ls) = sum_list (map (countOccurrences pat) ls)"
proof (induction "[CHR 0x0A]" ls rule: join.induct)
  case 1
  then show ?case by simp
next
  case (2 x)
  then show ?case by simp
next
  case (3 x y ys)
  then show ?case using count_append_nl [OF assms, of x "join [CHR 0x0A] (y # ys)"] by simp
qed

lemma count_skip_prefix:
  "c0 \<notin> set a \<Longrightarrow> countOccurrences (c0 # ps) (a @ b) = countOccurrences (c0 # ps) b"
  by (induction a) auto

lemma count_absent: "c0 \<notin> set a \<Longrightarrow> countOccurrences (c0 # ps) a = 0"
  using count_skip_prefix [of c0 a ps "[]"] by simp



lemma digit_not_lt: "d < 10 \<Longrightarrow> char_of (48 + d) \<noteq> CHR ''<''" for d :: nat
proof
  assume d: "d < 10" and "char_of (48 + d) = CHR ''<''"
  then have "of_char (char_of (48 + d) :: char) = (of_char CHR ''<'' :: nat)" by simp
  then have "(48 + d) mod 256 = 60" by (simp add: of_char_of)
  then show False using d by simp
qed

lemma natStr_no_lt: "CHR ''<'' \<notin> set (natStr n)"
proof (induction n rule: natStr.induct)
  case (1 n)
  show ?case
  proof (cases "n < 10")
    case True
    then show ?thesis using digit_not_lt [of n] by (subst natStr.simps) auto
  next
    case False
    have "n mod 10 < 10" by simp
    then have "char_of (48 + n mod 10) \<noteq> CHR ''<''" by (rule digit_not_lt)
    then show ?thesis using False 1 by (subst natStr.simps) auto
  qed
qed

lemma count_patternOf:
  assumes "CHR ''<'' \<notin> set (image item)"
  shows \<open>countOccurrences ''<clipPath '' (patternOf item i) = 0\<close>
    and \<open>countOccurrences ''<pattern '' (patternOf item i) = 1\<close>
    and \<open>countOccurrences ''<path '' (patternOf item i) = 0\<close>
  using assms natStr_no_lt [of i]
  by (simp_all add: patternOf_def count_skip_prefix count_absent grayscaleAttr_def)

lemma count_clipDefs_3:
  \<open>countOccurrences ''<clipPath '' (join [CHR 0x0A] (collageClipDefs 3)) = 3\<close>
  \<open>countOccurrences ''<pattern '' (join [CHR 0x0A] (collageClipDefs 3)) = 0\<close>
  \<open>countOccurrences ''<path '' (join [CHR 0x0A] (collageClipDefs 3)) = 0\<close>
  by (simp_all add: collageClipDefs_3)

lemma count_separators_3:
  \<open>countOccurrences ''<clipPath '' (collageSeparators 3) = 0\<close>
  \<open>countOccurrences ''<pattern '' (collageSeparators 3) = 0\<close>
  \<open>countOccurrences ''<path '' (collageSeparators 3) = 0\<close>
  by (simp_all add: collageSeparators_3)

lemma count_imageShapeOf:
  assumes "i < 3"
  shows \<open>countOccurrences ''<clipPath '' (imageShapeOf items (collageGeometries 3 ! i) i) = 0\<close>
    and \<open>countOccurrences ''<pattern '' (imageShapeOf items (collageGeometries 3 ! i) i) = 0\<close>
    and \<open>countOccurrences ''<path '' (imageShapeOf items (collageGeometries 3 ! i) i) = 0\<close>
proof -
  have i: "i = 0 \<or> i = 1 \<or> i = 2" using assms by auto
  show \<open>countOccurrences ''<clipPath '' (imageShapeOf items (collageGeometries 3 ! i) i) = 0\<close>
    using i natStr_no_lt [of i]
    by (auto simp: imageShapeOf_def collageGeometries_3 count_skip_prefix count_absent)
  show \<open>countOccurrences ''<pattern '' (imageShapeOf items (collageGeometries 3 ! i) i) = 0\<close>
    using i natStr_no_lt [of i]
    by (auto simp: imageShapeOf_def collageGeometries_3 count_skip_prefix count_absent)
  show \<open>countOccurrences ''<path '' (imageShapeOf items (collageGeometries 3 ! i) i) = 0\<close>
    using i natStr_no_lt [of i]
    by (auto simp: imageShapeOf_def collageGeometries_3 count_skip_prefix count_absent)
qed

lemma count_borderOf:
  assumes "i < 3"
  shows \<open>countOccurrences ''<clipPath '' (borderOf (collageBorderPaths 3) item i) = 0\<close>
    and \<open>countOccurrences ''<pattern '' (borderOf (collageBorderPaths 3) item i) = 0\<close>
    and \<open>countOccurrences ''<path '' (borderOf (collageBorderPaths 3) item i) = 1\<close>
proof -
  have i: "i = 0 \<or> i = 1 \<or> i = 2" using assms by auto
  show \<open>countOccurrences ''<clipPath '' (borderOf (collageBorderPaths 3) item i) = 0\<close>
    using i by (auto simp: borderOf_def collageBorderPaths_3)
  show \<open>countOccurrences ''<pattern '' (borderOf (collageBorderPaths 3) item i) = 0\<close>
    using i by (auto simp: borderOf_def collageBorderPaths_3)
  show \<open>countOccurrences ''<path '' (borderOf (collageBorderPaths 3) item i) = 1\<close>
    using i by (auto simp: borderOf_def collageBorderPaths_3)
qed


lemma length_3: "length [a, b, c] = 3"
  by simp

lemma upt_Suc_3: "[0..<Suc (Suc (Suc 0))] = [0, 1, 2]"
  by code_simp

lemma collagePatterns_3:
  "collagePatterns [a, b, c] = [patternOf a 0, patternOf b 1, patternOf c 2]"
  by (simp add: collagePatterns_def mapIndexed_def upt_Suc_3 numeral_2_eq_2)

lemma collageImageShapes_3:
  "collageImageShapes [a, b, c] =
     [imageShapeOf [a, b, c] (collageGeometries 3 ! 0) 0,
      imageShapeOf [a, b, c] (collageGeometries 3 ! 1) 1,
      imageShapeOf [a, b, c] (collageGeometries 3 ! 2) 2]"
  unfolding collageImageShapes_def length_3
  by (simp add: mapIndexed_def upt_Suc_3 collageGeometries_3 numeral_2_eq_2)

lemma collageBorders_3:
  "collageBorders [a, b, c] =
     [borderOf (collageBorderPaths 3) a 0, borderOf (collageBorderPaths 3) b 1,
      borderOf (collageBorderPaths 3) c 2]"
  unfolding collageBorders_def length_3
  by (simp add: mapIndexed_def upt_Suc_3 numeral_2_eq_2)

lemma count_collage_lines:
  assumes "CHR 0x0A \<notin> set pat" and "pat \<noteq> []"
  shows \<open>countOccurrences pat (collageSvg [a, b, c] overlayText) =
     sum_list (map (countOccurrences pat)
      [xmlHeader,
       ''<svg xmlns="http://www.w3.org/2000/svg" viewBox="0 0 100 100">'',
       ''  <defs>'',
       ''    <filter id="grayscale">'',
       feColorMatrixLine,
       ''    </filter>'',
       ''    <clipPath id="mainClip">'',
       ''      <rect x="1" y="1" width="98" height="98" rx="15" ry="15" />'',
       ''    </clipPath>'',
       ''    '' @ join [CHR 0x0A] (collagePatterns [a, b, c]),
       ''    '' @ join [CHR 0x0A] (collageClipDefs 3),
       ''  </defs>'',
       ''  '',
       ''  <rect width="100" height="100" fill="#000" />'',
       ''  '',
       ''  <g clip-path="url(#mainClip)">'',
       ''    '' @ join [CHR 0x0A] (collageImageShapes [a, b, c]),
       ''    '' @ collageSeparators 3,
       ''  </g>'',
       ''  '',
       ''  '' @ join [CHR 0x0A] (collageBorders [a, b, c]),
       ''  '' @ overlayText,
       ''</svg>''])\<close>
  by (simp only: collageSvg_def length_3 count_join_nl [OF assms])


lemma count_clipPath_collage:
  assumes "CHR ''<'' \<notin> set (image a)" "CHR ''<'' \<notin> set (image b)" "CHR ''<'' \<notin> set (image c)"
  shows \<open>countOccurrences ''<clipPath '' (collageSvg [a, b, c] overlayText)
           = 4 + countOccurrences ''<clipPath '' overlayText\<close>
proof -
  have p: \<open>countOccurrences ''<clipPath '' (join [CHR 0x0A] (collagePatterns [a, b, c])) = 0\<close>
    using assms by (simp add: collagePatterns_3 count_append_nl count_patternOf)
  have i: \<open>countOccurrences ''<clipPath '' (join [CHR 0x0A] (collageImageShapes [a, b, c])) = 0\<close>
    unfolding collageImageShapes_3
    by (simp add: count_append_nl count_imageShapeOf del: nth_Cons_0 nth_Cons_Suc nth_Cons_numeral)
  have b: \<open>countOccurrences ''<clipPath '' (join [CHR 0x0A] (collageBorders [a, b, c])) = 0\<close>
    by (simp add: collageBorders_3 count_append_nl count_borderOf)
  show ?thesis
    unfolding count_collage_lines [of "''<clipPath ''", simplified]
    by (simp add: p i b count_clipDefs_3 count_separators_3 xmlHeader_def feColorMatrixLine_def)
qed

lemma count_pattern_collage:
  assumes "CHR ''<'' \<notin> set (image a)" "CHR ''<'' \<notin> set (image b)" "CHR ''<'' \<notin> set (image c)"
  shows \<open>countOccurrences ''<pattern '' (collageSvg [a, b, c] overlayText)
           = 3 + countOccurrences ''<pattern '' overlayText\<close>
proof -
  have p: \<open>countOccurrences ''<pattern '' (join [CHR 0x0A] (collagePatterns [a, b, c])) = 3\<close>
    using assms by (simp add: collagePatterns_3 count_append_nl count_patternOf)
  have i: \<open>countOccurrences ''<pattern '' (join [CHR 0x0A] (collageImageShapes [a, b, c])) = 0\<close>
    unfolding collageImageShapes_3
    by (simp add: count_append_nl count_imageShapeOf del: nth_Cons_0 nth_Cons_Suc nth_Cons_numeral)
  have b: \<open>countOccurrences ''<pattern '' (join [CHR 0x0A] (collageBorders [a, b, c])) = 0\<close>
    by (simp add: collageBorders_3 count_append_nl count_borderOf)
  show ?thesis
    unfolding count_collage_lines [of "''<pattern ''", simplified]
    by (simp add: p i b count_clipDefs_3 count_separators_3 xmlHeader_def feColorMatrixLine_def)
qed

lemma count_path_collage:
  assumes "CHR ''<'' \<notin> set (image a)" "CHR ''<'' \<notin> set (image b)" "CHR ''<'' \<notin> set (image c)"
  shows \<open>countOccurrences ''<path '' (collageSvg [a, b, c] overlayText)
           = 3 + countOccurrences ''<path '' overlayText\<close>
proof -
  have p: \<open>countOccurrences ''<path '' (join [CHR 0x0A] (collagePatterns [a, b, c])) = 0\<close>
    using assms by (simp add: collagePatterns_3 count_append_nl count_patternOf)
  have i: \<open>countOccurrences ''<path '' (join [CHR 0x0A] (collageImageShapes [a, b, c])) = 0\<close>
    unfolding collageImageShapes_3
    by (simp add: count_append_nl count_imageShapeOf del: nth_Cons_0 nth_Cons_Suc nth_Cons_numeral)
  have b: \<open>countOccurrences ''<path '' (join [CHR 0x0A] (collageBorders [a, b, c])) = 3\<close>
    by (simp add: collageBorders_3 count_append_nl count_borderOf)
  show ?thesis
    unfolding count_collage_lines [of "''<path ''", simplified]
    by (simp add: p i b count_clipDefs_3 count_separators_3 xmlHeader_def feColorMatrixLine_def)
qed


lemma generateCollageSvg_3:
  "generateCollageSvg pf now [a, b, c] textOverlay imageCache
     = (dataUri pf (collageSvg [a, b, c] (renderTextOverlay pf textOverlay)), imageCache)"
  by (simp add: generateCollageSvg_def)

lemma collageBorders_3_explicit:
  \<open>collageBorders [a, b, c] =
     [''<path d="M 1,16.5 A 15,15 0 0 1 16,1 L 84,1 A 15,15 0 0 1 99,16.5" fill="none" stroke="''
        @ (if live a then ''#53fc18'' else ''#ff0000'') @ ''" stroke-width="2" />'',
      ''<path d="M 99,17.5 L 99,84 A 15,15 0 0 1 84,99 L 50.5,99" fill="none" stroke="''
        @ (if live b then ''#53fc18'' else ''#ff0000'') @ ''" stroke-width="2" />'',
      ''<path d="M 49.5,99 L 16,99 A 15,15 0 0 1 1,84 L 1,17.5" fill="none" stroke="''
        @ (if live c then ''#53fc18'' else ''#ff0000'') @ ''" stroke-width="2" />'']\<close>
  by (simp add: collageBorders_3 borderOf_def collageBorderPaths_3)

text \<open>
  Claim C9, as stated, fails on the number of clip paths: the SVG text that
  \<open>generateCollageSvg\<close> encodes for three items has four \<open>clipPath\<close> elements, the
  outer \<open>mainClip\<close> and one for each tile.
\<close>

theorem three_items_four_clip_paths:
  \<open>length threeItems = 3
   \<and> generateCollageSvg samplePlatform 0 threeItems None []
       = (dataUri samplePlatform (collageSvg threeItems []), [])
   \<and> countOccurrences ''<clipPath '' (collageSvg threeItems []) = 4\<close>
  using count_clipPath_collage
          [of "\<lparr>image = ''data:image/png;base64,AAAA'', live = True, isFlashing = None\<rparr>"
              "\<lparr>image = ''data:image/png;base64,BBBB'', live = False, isFlashing = None\<rparr>"
              "\<lparr>image = ''data:image/png;base64,CCCC'', live = False, isFlashing = None\<rparr>" "[]"]
  by (simp add: threeItems_def generateCollageSvg_3 renderTextOverlay_def)

text \<open>
  Claim C9, amended. For exactly three items the tiles have the inverted-Y geometry (a
  top wedge and two lower wedges), the tile clip paths are the three \<open>clip0\<close>,
  \<open>clip1\<close>, \<open>clip2\<close> of these polygons, there are three fill patterns and three
  border paths, the top border ending at y = 16.5 on both sides and the side borders
  starting and ending at y = 17.5, and the result is the data URI of the SVG text built
  from them. When no image reference has a \<open><\<close>, that text has, outside the text
  overlay, four \<open>clipPath\<close> elements (the outer \<open>mainClip\<close> and the three tiles),
  three \<open>pattern\<close> elements and three \<open>path\<close> elements.
\<close>

theorem collage_three_items:
  assumes len: "length items = 3"
  shows \<open>collageGeometries (length items) =
        [\<lparr>tag = ''polygon'', attrs = ''points="50,50 0,17 0,0 100,0 100,17"''\<rparr>,
         \<lparr>tag = ''polygon'', attrs = ''points="50,50 100,17 100,100 50,100"''\<rparr>,
         \<lparr>tag = ''polygon'', attrs = ''points="50,50 50,100 0,100 0,17"''\<rparr>]
    \<and> collageClipDefs (length items) =
        [''<clipPath id="clip0"><polygon points="50,50 0,17 0,0 100,0 100,17" /></clipPath>'',
         ''<clipPath id="clip1"><polygon points="50,50 100,17 100,100 50,100" /></clipPath>'',
         ''<clipPath id="clip2"><polygon points="50,50 50,100 0,100 0,17" /></clipPath>'']
    \<and> collagePatterns items
        = [patternOf (items ! 0) 0, patternOf (items ! 1) 1, patternOf (items ! 2) 2]
    \<and> collageBorders items =
        [''<path d="M 1,16.5 A 15,15 0 0 1 16,1 L 84,1 A 15,15 0 0 1 99,16.5" fill="none" stroke="''
           @ (if live (items ! 0) then ''#53fc18'' else ''#ff0000'') @ ''" stroke-width="2" />'',
         ''<path d="M 99,17.5 L 99,84 A 15,15 0 0 1 84,99 L 50.5,99" fill="none" stroke="''
           @ (if live (items ! 1) then ''#53fc18'' else ''#ff0000'') @ ''" stroke-width="2" />'',
         ''<path d="M 49.5,99 L 16,99 A 15,15 0 0 1 1,84 L 1,17.5" fill="none" stroke="''
           @ (if live (items ! 2) then ''#53fc18'' else ''#ff0000'') @ ''" stroke-width="2" />'']
    \<and> generateCollageSvg pf now items textOverlay imageCache
        = (dataUri pf (collageSvg items (renderTextOverlay pf textOverlay)), imageCache)
    \<and> ((\<forall>item \<in> set items. CHR ''<'' \<notin> set (image item)) \<longrightarrow>
         countOccurrences ''<clipPath '' (collageSvg items overlayText)
           = 4 + countOccurrences ''<clipPath '' overlayText
         \<and> countOccurrences ''<pattern '' (collageSvg items overlayText)
           = 3 + countOccurrences ''<pattern '' overlayText
         \<and> countOccurrences ''<path '' (collageSvg items overlayText)
           = 3 + countOccurrences ''<path '' overlayText)\<close>
proof -
  obtain a b c where items: "items = [a, b, c]"
    using len by (cases items; cases "tl items"; cases "tl (tl items)") auto
  have g: "collageGeometries (length items) = collageGeometries 3"
    and d: "collageClipDefs (length items) = collageClipDefs 3"
    using len by simp_all
  show ?thesis
    unfolding g d collageGeometries_3 collageClipDefs_3
    unfolding items collagePatterns_3 collageBorders_3_explicit generateCollageSvg_3
    using count_clipPath_collage [of a b c overlayText] count_pattern_collage [of a b c overlayText]
      count_path_collage [of a b c overlayText]
    by simp
qed

theorem collage_three_items_witness:
  \<open>collageBorders threeItems =
        [''<path d="M 1,16.5 A 15,15 0 0 1 16,1 L 84,1 A 15,15 0 0 1 99,16.5" fill="none" stroke="#53fc18" stroke-width="2" />'',
         ''<path d="M 99,17.5 L 99,84 A 15,15 0 0 1 84,99 L 50.5,99" fill="none" stroke="#ff0000" stroke-width="2" />'',
         ''<path d="M 49.5,99 L 16,99 A 15,15 0 0 1 1,84 L 1,17.5" fill="none" stroke="#ff0000" stroke-width="2" />'']
   \<and> length (collagePatterns threeItems) = 3
   \<and> countOccurrences ''<clipPath '' (collageSvg threeItems []) = 4
   \<and> countOccurrences ''<pattern '' (collageSvg threeItems []) = 3
   \<and> countOccurrences ''<path '' (collageSvg threeItems []) = 3\<close>
proof -
  have len: "length threeItems = 3"
    by (simp add: threeItems_def)
  have img: "\<forall>item \<in> set threeItems. CHR ''<'' \<notin> set (image item)"
    by (simp add: threeItems_def)
  show ?thesis
    using collage_three_items [OF len, of samplePlatform 0 None "[]" "[]"] img
    by (simp add: threeItems_def)
qed

section \<open>The size of the image cache and its eviction\<close>














lemma sorted_entries_facts:
  fixes m :: imageCache
  defines "sortedEntries \<equiv> sort_key (\<lambda>a. lastUsed (snd a)) m"
  shows "set sortedEntries = set m" and "length sortedEntries = length m"
    and "distinct m \<Longrightarrow> distinct sortedEntries"
    and "sorted (map (\<lambda>a. lastUsed (snd a)) sortedEntries)"
  unfolding sortedEntries_def by simp_all



















end
